theory Spec2Isabelle
  imports Complex_Main "HOL-Library.Sublist" "HOL-Library.Multiset" "HOL-Library.Log_Nat"
begin

section \<open>Data model\<close>

text \<open>
  The demonstration scripts keep every per-request outcome in a Python dict. The keys that the
  CRIS script (\<^verbatim>\<open>demo_cris.py\<close>) writes are the fields of \<open>probe_result\<close>; the account-sharding
  script (\<^verbatim>\<open>demo_account_sharding.py\<close>) adds \<open>account_type\<close> and \<open>profile\<close>. Optional values
  (\<^verbatim>\<open>None\<close>) are \<open>option\<close>s. A Python float is the real number it denotes. The success
  rates are computed with the rounding of binary64 arithmetic (section on binary64 below);
  latencies are taken as measured, and their sums and means are idealised as exact.
\<close>

record probe_result =
  request_id :: int
  success :: bool
  model_used :: "string option"
  response_time :: real
  content :: "string option"
  error :: "string option"

record shard_result = probe_result +
  account_type :: string
  profile :: string

text \<open>
  What the remote call did, seen from inside the \<^verbatim>\<open>try\<close> block of a request function: either
  every statement of the block ran (with the measured, rounded latency and the text of the
  answer), or some statement raised an \<^verbatim>\<open>Exception\<close> whose \<^verbatim>\<open>str(e)\<close> is the message.
  (An interrupt of the process is not an \<^verbatim>\<open>Exception\<close> and is outside the model.)
\<close>

datatype call_outcome = Returned real string | Raised string

datatype py_error = ValueError | SystemExit int

text \<open>\<^verbatim>\<open>range(n)\<close> for a Python int \<open>n\<close>: empty when \<open>n \<le> 0\<close>.\<close>

definition py_range :: "int \<Rightarrow> int list" where
  "py_range n = map int [0..<nat n]"

text \<open>The substring test \<^verbatim>\<open>needle in haystack\<close> on Python strings.\<close>

fun py_in :: "string \<Rightarrow> string \<Rightarrow> bool" where
  "py_in needle [] = (needle = [])"
| "py_in needle (c # cs) = (prefix needle (c # cs) \<or> py_in needle cs)"

text \<open>\<^verbatim>\<open>sum(...)\<close> over a list of numbers.\<close>

definition py_sum :: "real list \<Rightarrow> real" where
  "py_sum xs = foldl (+) 0 xs"

section \<open>Binary64 arithmetic\<close>

text \<open>
  Python floats are IEEE 754 binary64 numbers, and every arithmetic operation returns the
  binary64 number nearest to the exact result, a tie going to the even significand. \<open>dbl\<close>
  is that rounding on the reals, for the normal range (no overflow, no subnormal numbers:
  the quotients and percentages of this program are far inside it). \<open>binade x\<close> is the
  exponent \<open>e\<close> with \<open>2 ^ e \<le> x < 2 ^ (e + 1)\<close> of a positive \<open>x\<close>; a binary64 number has a
  significand of 53 bits.
\<close>

definition round_half_even :: "real \<Rightarrow> int" where
  "round_half_even y =
     (let f = \<lfloor>y\<rfloor>; d = y - of_int f
      in if d < 1 / 2 then f else if d > 1 / 2 then f + 1 else if even f then f else f + 1)"

definition binade :: "real \<Rightarrow> int" where
  "binade x = (if 1 \<le> x then bitlen \<lfloor>x\<rfloor> - 1 else - bitlen (\<lceil>1 / x\<rceil> - 1))"

definition dbl :: "real \<Rightarrow> real" where
  "dbl x =
     (if x = 0 then 0
      else let e = binade \<bar>x\<bar> - 52
           in sgn x * of_int (round_half_even (\<bar>x\<bar> / 2 powi e)) * 2 powi e)"

text \<open>
  \<^verbatim>\<open>a / b\<close> on two Python ints (true division: the correctly rounded quotient) and
  \<^verbatim>\<open>x * y\<close> on floats. The callers guard the division against a zero divisor.
\<close>

definition int_truediv :: "nat \<Rightarrow> nat \<Rightarrow> real" where
  "int_truediv a b = dbl (real a / real b)"

definition float_mul :: "real \<Rightarrow> real \<Rightarrow> real" where
  "float_mul x y = dbl (x * y)"

section \<open>Result analysis of the CRIS script\<close>

text \<open>
  The statistics block of \<^verbatim>\<open>analyze_cris_results\<close> (the dict it returns, without the wall-clock
  \<^verbatim>\<open>total_time\<close>, which is passed through unchanged).
\<close>

record cris_report =
  total_requests :: nat
  successful :: nat
  failed :: nat
  success_rate :: real
  avg_response_time :: real

definition cris_stats :: "'a probe_result_scheme list \<Rightarrow> cris_report" where
  "cris_stats results =
     (let successful = length [r \<leftarrow> results. success r];
          failed = length [r \<leftarrow> results. \<not> success r];
          total = length results;
          success_rate = (if total > 0 then float_mul (int_truediv successful total) 100 else 0);
          successful_results = [r \<leftarrow> results. success r];
          avg_response_time =
            (if successful_results \<noteq> []
             then py_sum (map response_time successful_results) / real (length successful_results)
             else 0)
      in \<lparr>total_requests = total, successful = successful, failed = failed,
          success_rate = success_rate, avg_response_time = avg_response_time\<rparr>)"

section \<open>Result analysis of the account-sharding script\<close>

text \<open>
  The statistics block of \<^verbatim>\<open>analyze_cross_account_results\<close>: the per-account figures, the
  figures of the \<^verbatim>\<open>TOTAL\<close> row of the printed table and the returned dict.
\<close>

record shard_report =
  sh_total_requests :: nat
  sh_successful :: nat
  sh_failed :: nat
  sh_success_rate :: real
  primary_requests :: nat
  secondary_requests :: nat
  primary_successful :: nat
  primary_failed :: nat
  primary_throttled :: nat
  secondary_successful :: nat
  secondary_failed :: nat
  secondary_throttled :: nat
  primary_avg_time :: real
  secondary_avg_time :: real
  total_row_avg_time :: real

definition shard_stats :: "'a shard_result_scheme list \<Rightarrow> shard_report" where
  "shard_stats results =
     (let primary_results = [r \<leftarrow> results. account_type r = ''ACCOUNT1''];
          secondary_results = [r \<leftarrow> results. account_type r = ''ACCOUNT2''];
          primary_successful = length [r \<leftarrow> primary_results. success r];
          primary_failed = length [r \<leftarrow> primary_results. \<not> success r];
          primary_throttled = length [r \<leftarrow> primary_results. error r = Some ''ThrottlingException''];
          secondary_successful = length [r \<leftarrow> secondary_results. success r];
          secondary_failed = length [r \<leftarrow> secondary_results. \<not> success r];
          secondary_throttled = length [r \<leftarrow> secondary_results. error r = Some ''ThrottlingException''];
          total = length results;
          total_successful = primary_successful + secondary_successful;
          success_rate =
            (if total > 0 then float_mul (int_truediv total_successful total) 100 else 0);
          primary_avg_time =
            (if primary_successful \<noteq> 0
             then py_sum (map response_time [r \<leftarrow> primary_results. success r]) / real primary_successful
             else 0);
          secondary_avg_time =
            (if secondary_successful \<noteq> 0
             then py_sum (map response_time [r \<leftarrow> secondary_results. success r]) / real secondary_successful
             else 0)
      in \<lparr>sh_total_requests = total, sh_successful = total_successful,
          sh_failed = total - total_successful, sh_success_rate = success_rate,
          primary_requests = length primary_results, secondary_requests = length secondary_results,
          primary_successful = primary_successful, primary_failed = primary_failed,
          primary_throttled = primary_throttled,
          secondary_successful = secondary_successful, secondary_failed = secondary_failed,
          secondary_throttled = secondary_throttled,
          primary_avg_time = primary_avg_time, secondary_avg_time = secondary_avg_time,
          total_row_avg_time = (primary_avg_time + secondary_avg_time) / 2\<rparr>)"

section \<open>Request functions\<close>

text \<open>
  \<^verbatim>\<open>send_bedrock_request\<close> of the CRIS script. The \<^verbatim>\<open>except Exception\<close> handler classifies the
  message: the result's \<^verbatim>\<open>error\<close> is \<^verbatim>\<open>"ThrottlingException"\<close> or \<^verbatim>\<open>"Error"\<close>; the finer
  labels exist only in the text of the log line (\<open>sanitized_error\<close>).
\<close>

definition sanitized_error :: "string \<Rightarrow> string" where
  "sanitized_error error_msg =
     (if py_in ''ValidationException'' error_msg then ''Validation Error''
      else if py_in ''AccessDenied'' error_msg then ''Access Denied''
      else if py_in ''ResourceNotFound'' error_msg then ''Resource Not Found''
      else ''API Error'')"

definition error_type_of :: "string \<Rightarrow> string" where
  "error_type_of error_msg =
     (if py_in ''ThrottlingException'' error_msg \<or> py_in ''ServiceQuota'' error_msg
      then ''ThrottlingException'' else ''Error'')"

definition cris_log_line :: "call_outcome \<Rightarrow> string" where
  "cris_log_line oc =
     (case oc of
        Returned t txt \<Rightarrow> ''SUCCESS''
      | Raised error_msg \<Rightarrow>
          (if py_in ''ThrottlingException'' error_msg \<or> py_in ''ServiceQuota'' error_msg
           then ''THROTTLED'' else ''ERROR | '' @ sanitized_error error_msg))"

definition truncate_content :: "string \<Rightarrow> string" where
  "truncate_content txt = (if length txt > 50 then take 50 txt @ ''...'' else txt)"

definition cris_send_bedrock_request :: "int \<Rightarrow> string \<Rightarrow> call_outcome \<Rightarrow> probe_result" where
  "cris_send_bedrock_request rid model_id oc =
     (case oc of
        Returned t txt \<Rightarrow>
          \<lparr>request_id = rid, success = True, model_used = Some model_id, response_time = t,
           content = Some (truncate_content txt), error = None\<rparr>
      | Raised error_msg \<Rightarrow>
          \<lparr>request_id = rid, success = False, model_used = None, response_time = 0,
           content = None, error = Some (error_type_of error_msg)\<rparr>)"

text \<open>\<^verbatim>\<open>send_bedrock_request\<close> of the account-sharding script.\<close>

definition shard_send_bedrock_request ::
  "int \<Rightarrow> string \<Rightarrow> string \<Rightarrow> string \<Rightarrow> call_outcome \<Rightarrow> shard_result" where
  "shard_send_bedrock_request rid model_id profile_name acct oc =
     (case oc of
        Returned t txt \<Rightarrow>
          \<lparr>request_id = rid, success = True, model_used = Some model_id, response_time = t,
           content = Some (truncate_content txt), error = None,
           account_type = acct, profile = profile_name\<rparr>
      | Raised error_msg \<Rightarrow>
          \<lparr>request_id = rid, success = False, model_used = None, response_time = 0,
           content = None, error = Some (error_type_of error_msg),
           account_type = acct, profile = profile_name\<rparr>)"

text \<open>
  \<^verbatim>\<open>send_request\<close> of the load-balancing script. Here the string of \<open>Returned\<close> is the model
  name read from the response; the dict has no \<^verbatim>\<open>content\<close> key, and an \<^verbatim>\<open>error\<close> key (the whole
  message) only on failure.
\<close>

definition lb_send_request :: "int \<Rightarrow> call_outcome \<Rightarrow> probe_result" where
  "lb_send_request rid oc =
     (case oc of
        Returned t model \<Rightarrow>
          \<lparr>request_id = rid, success = True, model_used = Some model, response_time = t,
           content = None, error = None\<rparr>
      | Raised error_msg \<Rightarrow>
          \<lparr>request_id = rid, success = False, model_used = Some ''error'', response_time = 0,
           content = None, error = Some error_msg\<rparr>)"

section \<open>Dispatch\<close>

text \<open>
  The order in which concurrent workers finish is not fixed by the program. It is a parameter
  here: \<open>picks\<close> gives, for each submitted task in turn, how many of the tasks submitted
  after it have appended their result before it does (a number beyond the end means: after
  all of them). Every task occurs once in the order, whatever the picks.
\<close>

definition finish_after :: "nat \<Rightarrow> 'a \<Rightarrow> 'a list \<Rightarrow> 'a list" where
  "finish_after k x later = take k later @ x # drop k later"

fun completion_order :: "nat list \<Rightarrow> 'a list \<Rightarrow> 'a list" where
  "completion_order picks [] = []"
| "completion_order picks (x # xs) =
     finish_after (case picks of [] \<Rightarrow> 0 | k # ks \<Rightarrow> k) x (completion_order (tl picks) xs)"

text \<open>
  A \<^verbatim>\<open>ThreadPoolExecutor(max_workers=m)\<close> refuses \<open>m \<le> 0\<close> with \<^verbatim>\<open>ValueError\<close>. Every
  submitted worker appends its result to the shared list under the lock, and leaving the
  \<^verbatim>\<open>with\<close> block waits for all submitted workers; so after the block the list holds the
  results of the submitted tasks in their completion order.
\<close>

definition thread_pool_results ::
  "int \<Rightarrow> (int \<Rightarrow> 'r) \<Rightarrow> int list \<Rightarrow> nat list \<Rightarrow> py_error + 'r list" where
  "thread_pool_results max_workers worker submitted picks =
     (if max_workers \<le> 0 then Inl ValueError
      else Inr (map worker (completion_order picks submitted)))"

definition cris_questions :: "string list" where
  "cris_questions =
     [''Hello from CRIS request!'', ''Test message for cross-region demo'', ''CRIS demo request'',
      ''Cross-region test message'', ''Regional distribution test'']"

definition cris_worker :: "string \<Rightarrow> (int \<Rightarrow> string \<Rightarrow> call_outcome) \<Rightarrow> int \<Rightarrow> probe_result" where
  "cris_worker model_id invoke req_id =
     (let question = cris_questions ! nat (req_id mod int (length cris_questions))
      in cris_send_bedrock_request (req_id + 1) model_id (invoke (req_id + 1) question))"

definition cris_max_workers :: "int \<Rightarrow> int" where
  "cris_max_workers num_requests = num_requests"

definition run_cris_demo ::
  "int \<Rightarrow> string \<Rightarrow> (int \<Rightarrow> string \<Rightarrow> call_outcome) \<Rightarrow> nat list \<Rightarrow> py_error + probe_result list" where
  "run_cris_demo num_requests model_id invoke picks =
     thread_pool_results (cris_max_workers num_requests) (cris_worker model_id invoke)
       (py_range num_requests) picks"

record shard_config =
  primary_profile :: string
  secondary_profile :: string
  shard_model_id :: string

definition shard_questions :: "string list" where
  "shard_questions =
     [''Hello from cross-account request!'', ''Test message for account isolation demo'',
      ''Cross-account demo request'', ''Multi-account test message'', ''Account distribution test'']"

text \<open>
  The account choice inside \<^verbatim>\<open>worker\<close>; \<open>random_choice\<close> stands for the value that
  \<^verbatim>\<open>random.choice([True, False])\<close> returns in the worker of that request.
\<close>

definition use_primary :: "string \<Rightarrow> int \<Rightarrow> (int \<Rightarrow> bool) \<Rightarrow> int \<Rightarrow> bool" where
  "use_primary distribution_strategy num_requests random_choice req_id =
     (if distribution_strategy = ''round-robin'' then req_id mod 2 = 0
      else if distribution_strategy = ''split'' then req_id < num_requests div 2
      else random_choice req_id)"

definition shard_worker ::
  "shard_config \<Rightarrow> string \<Rightarrow> int \<Rightarrow> (int \<Rightarrow> bool) \<Rightarrow> (int \<Rightarrow> string \<Rightarrow> string \<Rightarrow> call_outcome)
     \<Rightarrow> int \<Rightarrow> shard_result" where
  "shard_worker cfg distribution_strategy num_requests random_choice invoke req_id =
     (let question = shard_questions ! nat (req_id mod int (length shard_questions));
          primary = use_primary distribution_strategy num_requests random_choice req_id;
          prof = (if primary then primary_profile cfg else secondary_profile cfg);
          acct = (if primary then ''ACCOUNT1'' else ''ACCOUNT2'')
      in shard_send_bedrock_request (req_id + 1) (shard_model_id cfg) prof acct
           (invoke (req_id + 1) question prof))"

definition shard_max_workers :: "int \<Rightarrow> int" where
  "shard_max_workers num_requests = min num_requests 20"

text \<open>
  \<^verbatim>\<open>run_cross_account_demo\<close> up to the call of the analysis. The two account ids are what
  \<^verbatim>\<open>verify_aws_credentials\<close> returned (\<open>None\<close> on failure); a missing or empty id ends the
  process with status 1 before any request is sent.
\<close>

definition py_falsy :: "string option \<Rightarrow> bool" where
  "py_falsy v = (case v of None \<Rightarrow> True | Some s \<Rightarrow> s = [])"

definition run_cross_account_demo ::
  "int \<Rightarrow> string \<Rightarrow> shard_config \<Rightarrow> string option \<Rightarrow> string option \<Rightarrow> (int \<Rightarrow> bool)
     \<Rightarrow> (int \<Rightarrow> string \<Rightarrow> string \<Rightarrow> call_outcome) \<Rightarrow> nat list \<Rightarrow> py_error + shard_result list" where
  "run_cross_account_demo num_requests distribution_strategy cfg primary_account secondary_account
       random_choice invoke picks =
     (if py_falsy primary_account \<or> py_falsy secondary_account then Inl (SystemExit 1)
      else thread_pool_results (shard_max_workers num_requests)
             (shard_worker cfg distribution_strategy num_requests random_choice invoke)
             (py_range num_requests) picks)"

section \<open>Log reconciliation\<close>

text \<open>
  A row of a Logs Insights answer has the region and the count in its first two fields; the
  parser skips a row with fewer than two fields. \<open>query_outcome\<close> is what one call of
  \<^verbatim>\<open>query_cloudwatch_distribution\<close> meets: a step before the retrieval fails (credentials, start
  of the query, the wait for completion: the function returns \<^verbatim>\<open>None\<close>), the retrieval or the
  parsing raises (\<^verbatim>\<open>get_cloudwatch_results\<close> returns \<^verbatim>\<open>{}\<close>), or the rows arrive.
\<close>

datatype cw_row = ShortRow | Row string int

datatype query_outcome = QueryFailed | ResultsRaised | Results "cw_row list"

datatype cw_results = PyNone | EmptyDict | Snapshot "string \<rightharpoonup> int" int

fun parse_rows :: "cw_row list \<Rightarrow> (string \<rightharpoonup> int) \<times> int \<Rightarrow> (string \<rightharpoonup> int) \<times> int" where
  "parse_rows [] acc = acc"
| "parse_rows (ShortRow # rows) acc = parse_rows rows acc"
| "parse_rows (Row region cnt # rows) (region_distribution, total_invocations) =
     parse_rows rows (region_distribution(region \<mapsto> cnt), total_invocations + cnt)"

text \<open>What a row adds to \<^verbatim>\<open>total_invocations\<close>.\<close>

fun row_count :: "cw_row \<Rightarrow> int" where
  "row_count ShortRow = 0"
| "row_count (Row region cnt) = cnt"

fun has_full_row :: "cw_row list \<Rightarrow> bool" where
  "has_full_row [] = False"
| "has_full_row (ShortRow # rows) = has_full_row rows"
| "has_full_row (Row region cnt # rows) = True"

text \<open>
  The parsed answer. The region mapping of a snapshot is non-empty exactly when some row had
  two fields; that test is kept beside the mapping as \<open>has_full_row\<close>, since emptiness of a
  function is not computed.
\<close>

definition get_cloudwatch_results :: "cw_row list option \<Rightarrow> cw_results \<times> bool" where
  "get_cloudwatch_results response =
     (case response of
        None \<Rightarrow> (EmptyDict, False)
      | Some rows \<Rightarrow>
          if rows = [] then (EmptyDict, False)
          else (Snapshot (fst (parse_rows rows (Map.empty, 0))) (snd (parse_rows rows (Map.empty, 0))),
                has_full_row rows))"

definition query_cloudwatch_distribution :: "query_outcome \<Rightarrow> cw_results \<times> bool" where
  "query_cloudwatch_distribution oc =
     (case oc of
        QueryFailed \<Rightarrow> (PyNone, False)
      | ResultsRaised \<Rightarrow> get_cloudwatch_results None
      | Results rows \<Rightarrow> get_cloudwatch_results (Some rows))"

text \<open>Truth value of a result, and \<^verbatim>\<open>result.get('total_invocations', 0)\<close>.\<close>

fun py_truthy :: "cw_results \<Rightarrow> bool" where
  "py_truthy (Snapshot d t) = True"
| "py_truthy r = False"

fun get_total_invocations :: "cw_results \<Rightarrow> int" where
  "get_total_invocations (Snapshot d t) = t"
| "get_total_invocations r = 0"

text \<open>
  A \<^verbatim>\<open>for\<close> loop whose body ends in a conditional \<^verbatim>\<open>break\<close>: the body runs on the next element,
  and the loop leaves as soon as the condition holds of the new state.
\<close>

fun for_break :: "('a \<Rightarrow> 's \<Rightarrow> 's) \<Rightarrow> ('s \<Rightarrow> bool) \<Rightarrow> 'a list \<Rightarrow> 's \<Rightarrow> 's" where
  "for_break body leave [] st = st"
| "for_break body leave (x # xs) st =
     (let st' = body x st in if leave st' then st' else for_break body leave xs st')"

datatype poll_event = Sleep nat | Query nat | AccountQuery nat string

definition max_attempts :: nat where
  "max_attempts = 5"

definition wait_time :: "nat \<Rightarrow> nat" where
  "wait_time attempt = (if attempt = 0 then 60 else 30)"

subsection \<open>The polling loop of the CRIS script\<close>

text \<open>
  The state of the loop in \<^verbatim>\<open>analyze_cris_results\<close>: the variable \<^verbatim>\<open>cloudwatch_results\<close>
  (with the emptiness test of its region mapping) and the sleeps and queries made so far.
  \<open>query attempt\<close> is what the external service does with the query of that attempt;
  \<open>expected\<close> is the number of successful calls, and the analysis enters the loop only when
  it is positive.
\<close>

record cris_poll_state =
  cloudwatch_results :: cw_results
  has_regions :: bool
  events :: "poll_event list"

definition cris_attempt :: "(nat \<Rightarrow> query_outcome) \<Rightarrow> nat \<Rightarrow> cris_poll_state \<Rightarrow> cris_poll_state" where
  "cris_attempt query attempt st =
     (let answer = query_cloudwatch_distribution (query attempt)
      in \<lparr>cloudwatch_results = fst answer, has_regions = snd answer,
          events = events st @ [Sleep (wait_time attempt), Query attempt]\<rparr>)"

definition cris_complete :: "nat \<Rightarrow> cw_results \<Rightarrow> bool" where
  "cris_complete expected r = (py_truthy r \<and> get_total_invocations r = int expected)"

definition cris_poll :: "(nat \<Rightarrow> query_outcome) \<Rightarrow> nat \<Rightarrow> cris_poll_state" where
  "cris_poll query expected =
     for_break (cris_attempt query) (\<lambda>st. cris_complete expected (cloudwatch_results st))
       [0..<max_attempts]
       \<lparr>cloudwatch_results = PyNone, has_regions = False, events = []\<rparr>"

subsection \<open>The polling loop of the account-sharding script\<close>

text \<open>
  The state of the loop in \<^verbatim>\<open>analyze_cross_account_results\<close>: the dict
  \<^verbatim>\<open>all_cloudwatch_results\<close> from account label to the stored answer, and the sleeps and
  queries made so far. Each attempt queries every account that had a success; an answer is
  stored under its account when it is truthy and its region mapping is non-empty.
\<close>

record shard_poll_state =
  all_cloudwatch_results :: "string \<rightharpoonup> cw_results"
  shard_events :: "poll_event list"

definition shard_query ::
  "(nat \<Rightarrow> string \<Rightarrow> query_outcome) \<Rightarrow> nat \<Rightarrow> string \<Rightarrow> shard_poll_state \<Rightarrow> shard_poll_state" where
  "shard_query query attempt acct st =
     (let answer = query_cloudwatch_distribution (query attempt acct)
      in \<lparr>all_cloudwatch_results =
            (if py_truthy (fst answer) \<and> snd answer
             then (all_cloudwatch_results st)(acct \<mapsto> fst answer)
             else all_cloudwatch_results st),
          shard_events = shard_events st @ [AccountQuery attempt acct]\<rparr>)"

definition shard_attempt ::
  "(nat \<Rightarrow> string \<Rightarrow> query_outcome) \<Rightarrow> nat \<Rightarrow> nat \<Rightarrow> nat \<Rightarrow> shard_poll_state \<Rightarrow> shard_poll_state" where
  "shard_attempt query primary_ok secondary_ok attempt st =
     (let st0 = st\<lparr>shard_events := shard_events st @ [Sleep (wait_time attempt)]\<rparr>;
          st1 = (if primary_ok > 0 then shard_query query attempt ''ACCOUNT1'' st0 else st0);
          st2 = (if secondary_ok > 0 then shard_query query attempt ''ACCOUNT2'' st1 else st1)
      in st2)"

definition got_account :: "string \<Rightarrow> nat \<Rightarrow> (string \<rightharpoonup> cw_results) \<Rightarrow> bool" where
  "got_account acct expected stored =
     (case stored acct of None \<Rightarrow> False | Some r \<Rightarrow> get_total_invocations r = int expected)"

definition shard_complete :: "nat \<Rightarrow> nat \<Rightarrow> (string \<rightharpoonup> cw_results) \<Rightarrow> bool" where
  "shard_complete primary_ok secondary_ok stored =
     ((\<not> primary_ok > 0 \<or> got_account ''ACCOUNT1'' primary_ok stored)
      \<and> (\<not> secondary_ok > 0 \<or> got_account ''ACCOUNT2'' secondary_ok stored))"

definition shard_poll :: "(nat \<Rightarrow> string \<Rightarrow> query_outcome) \<Rightarrow> nat \<Rightarrow> nat \<Rightarrow> shard_poll_state" where
  "shard_poll query primary_ok secondary_ok =
     for_break (shard_attempt query primary_ok secondary_ok)
       (\<lambda>st. shard_complete primary_ok secondary_ok (all_cloudwatch_results st))
       [0..<max_attempts]
       \<lparr>all_cloudwatch_results = Map.empty, shard_events = []\<rparr>"

section \<open>Command lines\<close>

text \<open>
  What \<^verbatim>\<open>main\<close> does with the parsed arguments: it prints a message and leaves through
  \<^verbatim>\<open>sys.exit\<close>, or it hands over to the demonstration.
\<close>

datatype main_action =
    Exit int string
  | RunCrisDemo int
  | RunCrossAccountDemo int string
  | RunLoopMode int
  | RunDemoOnce

definition cris_main :: "int \<Rightarrow> main_action" where
  "cris_main requests =
     (if requests < 1 then Exit 1 ''Error: Number of requests must be at least 1''
      else if requests > 100
      then Exit 1 ''Error: Maximum 100 requests allowed to avoid overwhelming the system''
      else RunCrisDemo requests)"

definition shard_main :: "int \<Rightarrow> string \<Rightarrow> main_action" where
  "shard_main requests strategy =
     (if requests < 1 then Exit 1 ''Error: Number of requests must be at least 1''
      else if requests > 100
      then Exit 1 ''Error: Maximum 100 requests allowed to avoid overwhelming the system''
      else RunCrossAccountDemo requests strategy)"

definition lb_main :: "bool \<Rightarrow> int \<Rightarrow> main_action" where
  "lb_main loop interval =
     (if loop
      then (if interval < 5 then Exit 1 ''Error: Minimum interval is 5 seconds''
            else RunLoopMode interval)
      else RunDemoOnce)"

text \<open>Whether an action of \<^verbatim>\<open>main\<close> reaches the dispatch of requests.\<close>

fun dispatches :: "main_action \<Rightarrow> bool" where
  "dispatches (Exit status msg) = False"
| "dispatches a = True"

section \<open>Reference notions for the properties\<close>

text \<open>The numbers \<open>S\<close> of successes and \<open>F\<close> of failures in a list of results.\<close>

definition successes :: "'a probe_result_scheme list \<Rightarrow> nat" where
  "successes rs = length [r \<leftarrow> rs. success r]"

definition failures :: "'a probe_result_scheme list \<Rightarrow> nat" where
  "failures rs = length [r \<leftarrow> rs. \<not> success r]"

text \<open>
  The success rate in the words of the specification: \<open>100 * S / (S + F)\<close> for \<open>S\<close> successes
  and \<open>F\<close> failures, and 0 when there is no result.
\<close>

definition spec_success_rate :: "nat \<Rightarrow> nat \<Rightarrow> real" where
  "spec_success_rate S F = (if S + F = 0 then 0 else 100 * real S / real (S + F))"

text \<open>The arithmetic mean of a list of latencies, 0 for the empty list.\<close>

definition spec_mean :: "real list \<Rightarrow> real" where
  "spec_mean xs = (if xs = [] then 0 else sum_list xs / real (length xs))"

text \<open>
  Observations on the events of a polling loop: every attempt starts with one sleep, so the
  number of sleeps is the number of attempts made.
\<close>

fun is_sleep :: "poll_event \<Rightarrow> bool" where
  "is_sleep (Sleep s) = True"
| "is_sleep e = False"

definition attempts_made :: "poll_event list \<Rightarrow> nat" where
  "attempts_made evs = length (filter is_sleep evs)"

text \<open>The answer that the CRIS loop gets in an attempt, and the events of one attempt.\<close>

definition cris_answer :: "(nat \<Rightarrow> query_outcome) \<Rightarrow> nat \<Rightarrow> cw_results" where
  "cris_answer query attempt = fst (query_cloudwatch_distribution (query attempt))"

definition cris_attempt_events :: "nat \<Rightarrow> poll_event list" where
  "cris_attempt_events attempt = [Sleep (wait_time attempt), Query attempt]"

text \<open>
  The latest answer among attempts \<open>0, \<dots>, k - 1\<close> that can be stored (truthy, with a
  non-empty region mapping), and with it what the account-sharding loop holds for each
  account once \<open>k\<close> attempts have run.
\<close>

primrec last_usable :: "(nat \<Rightarrow> cw_results \<times> bool) \<Rightarrow> nat \<Rightarrow> cw_results option" where
  "last_usable answers 0 = None"
| "last_usable answers (Suc k) =
     (if py_truthy (fst (answers k)) \<and> snd (answers k) then Some (fst (answers k))
      else last_usable answers k)"

definition shard_stored ::
  "(nat \<Rightarrow> string \<Rightarrow> query_outcome) \<Rightarrow> nat \<Rightarrow> nat \<Rightarrow> nat \<Rightarrow> string \<rightharpoonup> cw_results" where
  "shard_stored query primary_ok secondary_ok k acct =
     (if (acct = ''ACCOUNT1'' \<and> primary_ok > 0) \<or> (acct = ''ACCOUNT2'' \<and> secondary_ok > 0)
      then last_usable (\<lambda>i. query_cloudwatch_distribution (query i acct)) k
      else None)"

definition shard_attempt_events :: "nat \<Rightarrow> nat \<Rightarrow> nat \<Rightarrow> poll_event list" where
  "shard_attempt_events primary_ok secondary_ok attempt =
     Sleep (wait_time attempt)
       # (if primary_ok > 0 then [AccountQuery attempt ''ACCOUNT1''] else [])
       @ (if secondary_ok > 0 then [AccountQuery attempt ''ACCOUNT2''] else [])"

text \<open>
  The state in which the account-sharding loop starts, and its state once attempts
  \<open>0, \<dots>, i\<close> have run.
\<close>

definition shard_poll_init :: shard_poll_state where
  "shard_poll_init = \<lparr>all_cloudwatch_results = Map.empty, shard_events = []\<rparr>"

definition shard_after ::
  "(nat \<Rightarrow> string \<Rightarrow> query_outcome) \<Rightarrow> nat \<Rightarrow> nat \<Rightarrow> nat \<Rightarrow> shard_poll_state" where
  "shard_after query primary_ok secondary_ok i =
     fold (shard_attempt query primary_ok secondary_ok) [0..<Suc i] shard_poll_init"

section \<open>Concrete runs\<close>

text \<open>
  The end-to-end scenario of the specification: four calls, of which the first and the third
  succeed on route \<open>r1\<close> in one second and the second and the fourth are throttled.
\<close>

definition scenario_invoke :: "int \<Rightarrow> string \<Rightarrow> call_outcome" where
  "scenario_invoke rid question =
     (if rid = 1 \<or> rid = 3 then Returned 1 ''ok''
      else Raised ''An error occurred (ThrottlingException) when calling the InvokeModel operation'')"

definition scenario_shard_invoke :: "int \<Rightarrow> string \<Rightarrow> string \<Rightarrow> call_outcome" where
  "scenario_shard_invoke rid question prof = scenario_invoke rid question"

definition scenario_cfg :: shard_config where
  "scenario_cfg = \<lparr>primary_profile = ''default'', secondary_profile = ''default-secondary'',
                   shard_model_id = ''r1''\<rparr>"

definition scenario_results :: "probe_result list" where
  "scenario_results =
     [\<lparr>request_id = 1, success = True, model_used = Some ''r1'', response_time = 1,
       content = Some ''ok'', error = None\<rparr>,
      \<lparr>request_id = 2, success = False, model_used = None, response_time = 0,
       content = None, error = Some ''ThrottlingException''\<rparr>,
      \<lparr>request_id = 3, success = True, model_used = Some ''r1'', response_time = 1,
       content = Some ''ok'', error = None\<rparr>,
      \<lparr>request_id = 4, success = False, model_used = None, response_time = 0,
       content = None, error = Some ''ThrottlingException''\<rparr>]"

definition scenario_shard_results :: "shard_result list" where
  "scenario_shard_results =
     [\<lparr>request_id = 1, success = True, model_used = Some ''r1'', response_time = 1,
       content = Some ''ok'', error = None, account_type = ''ACCOUNT1'', profile = ''default''\<rparr>,
      \<lparr>request_id = 2, success = False, model_used = None, response_time = 0,
       content = None, error = Some ''ThrottlingException'',
       account_type = ''ACCOUNT2'', profile = ''default-secondary''\<rparr>,
      \<lparr>request_id = 3, success = True, model_used = Some ''r1'', response_time = 1,
       content = Some ''ok'', error = None, account_type = ''ACCOUNT1'', profile = ''default''\<rparr>,
      \<lparr>request_id = 4, success = False, model_used = None, response_time = 0,
       content = None, error = Some ''ThrottlingException'',
       account_type = ''ACCOUNT2'', profile = ''default-secondary''\<rparr>]"

text \<open>
  A run of the CRIS script with its default of 20 requests, of which the first 11 succeed and
  the other 9 are throttled, and the results it collects in submission order.
\<close>

definition eleven_invoke :: "int \<Rightarrow> string \<Rightarrow> call_outcome" where
  "eleven_invoke rid question =
     (if rid \<le> 11 then Returned 1 ''ok''
      else Raised ''An error occurred (ThrottlingException) when calling the InvokeModel operation'')"

definition eleven_results :: "probe_result list" where
  "eleven_results = map (cris_worker ''r1'' eleven_invoke) (py_range 20)"

text \<open>
  Log answers for the polling loops. \<open>late_query\<close>: one of three invocations is visible in
  the first two attempts, all three from the third attempt on. \<open>requery_query\<close>: the first
  account answers in full at once, the second account never answers. \<open>lastfail_query\<close>: one
  of three invocations is visible in the first four attempts, and the query of the fifth
  attempt fails; \<open>lastfail_shard_query\<close> gives the same answers to the first account.
\<close>

definition late_query :: "nat \<Rightarrow> query_outcome" where
  "late_query attempt =
     (if attempt < 2 then Results [Row ''us-east-1'' 1]
      else Results [Row ''us-east-1'' 2, Row ''us-west-2'' 1])"

definition lastfail_query :: "nat \<Rightarrow> query_outcome" where
  "lastfail_query attempt = (if attempt < 4 then Results [Row ''us-east-1'' 1] else QueryFailed)"

definition lastfail_shard_query :: "nat \<Rightarrow> string \<Rightarrow> query_outcome" where
  "lastfail_shard_query attempt acct = lastfail_query attempt"

definition requery_query :: "nat \<Rightarrow> string \<Rightarrow> query_outcome" where
  "requery_query attempt acct =
     (if acct = ''ACCOUNT1'' then Results [Row ''us-east-1'' 2] else QueryFailed)"

section \<open>Auxiliary facts\<close>

subsection \<open>Rounding\<close>

text \<open>
  Rounding to the nearest integer is off by at most one half; \<open>binade\<close> is the binary
  exponent; hence one binary64 rounding of a positive number has a relative error of at most
  \<open>2 ^ - 53\<close>, and the rounded quotient times 100, rounded again, is within \<open>2 ^ - 51\<close>
  of the exact percentage.
\<close>

lemma round_half_even_error: "\<bar>of_int (round_half_even y) - y\<bar> \<le> 1 / 2"
  unfolding round_half_even_def Let_def by (auto; linarith)

lemma powi_nat: "0 \<le> k \<Longrightarrow> (2::real) powi k = 2 ^ nat k"
  by (simp add: power_int_def)

lemma binade_bounds:
  assumes "0 < x"
  shows "2 powi binade x \<le> x" and "x < 2 powi (binade x + 1)"
proof -
  have "2 powi binade x \<le> x \<and> x < 2 powi (binade x + 1)"
  proof (cases "1 \<le> x")
    case True
    define n where "n = \<lfloor>x\<rfloor>"
    define b where "b = bitlen n"
    from True have n: "0 < n" by (simp add: n_def)
    from bitlen_bounds [OF n] have lo: "2 ^ nat (b - 1) \<le> n" and hi: "n < 2 ^ nat b"
      by (simp_all add: b_def)
    from n have "bitlen n \<noteq> 0"
      using bitlen_eq_zero_iff [of n] by simp
    with bitlen_nonneg [of n] have b: "1 \<le> b"
      unfolding b_def by linarith
    have e: "binade x = b - 1"
      using True by (simp add: binade_def b_def n_def)
    have "(2::real) ^ nat (b - 1) \<le> of_int n"
      using lo by (metis of_int_le_iff of_int_numeral of_int_power)
    also have "\<dots> \<le> x" by (simp add: n_def)
    finally have l: "2 powi (b - 1) \<le> x"
      using b by (simp add: powi_nat)
    from hi have "n + 1 \<le> 2 ^ nat b" by simp
    then have "of_int (n + 1) \<le> (2::real) ^ nat b"
      by (metis of_int_le_iff of_int_numeral of_int_power)
    moreover have "x < of_int (n + 1)"
      unfolding n_def by linarith
    ultimately have "x < 2 ^ nat b" by linarith
    then have h: "x < 2 powi b"
      using b by (simp add: powi_nat)
    from l h show ?thesis by (simp add: e)
  next
    case False
    define c where "c = \<lceil>1 / x\<rceil>"
    define b where "b = bitlen (c - 1)"
    from False assms have y: "1 < 1 / x" by simp
    then have c: "0 < c - 1"
      unfolding c_def by linarith
    from bitlen_bounds [OF c] have lo: "2 ^ nat (b - 1) \<le> c - 1" and hi: "c - 1 < 2 ^ nat b"
      by (simp_all add: b_def)
    from c have "bitlen (c - 1) \<noteq> 0"
      using bitlen_eq_zero_iff [of "c - 1"] by simp
    with bitlen_nonneg [of "c - 1"] have b: "1 \<le> b"
      unfolding b_def by linarith
    have e: "binade x = - b"
      using False by (simp add: binade_def b_def c_def)
    from hi have "c \<le> 2 ^ nat b" by simp
    then have "of_int c \<le> (2::real) ^ nat b"
      by (metis of_int_le_iff of_int_numeral of_int_power)
    moreover have "1 / x \<le> of_int c"
      unfolding c_def by linarith
    ultimately have "1 / x \<le> 2 ^ nat b" by linarith
    then have "1 \<le> 2 ^ nat b * x"
      using assms by (simp add: field_simps)
    then have "1 / 2 ^ nat b \<le> x"
      by (simp add: field_simps)
    then have l: "2 powi (- b) \<le> x"
      using b by (simp add: power_int_minus powi_nat field_simps)
    have "(2::real) ^ nat (b - 1) \<le> of_int (c - 1)"
      using lo by (metis of_int_le_iff of_int_numeral of_int_power)
    moreover have "of_int (c - 1) < 1 / x"
      unfolding c_def by simp linarith
    ultimately have "2 ^ nat (b - 1) < 1 / x" by linarith
    then have "2 ^ nat (b - 1) * x < 1"
      using assms by (simp add: field_simps)
    then have "x < 1 / 2 ^ nat (b - 1)"
      by (simp add: field_simps)
    moreover have "(2::real) powi (- b + 1) = 1 / 2 ^ nat (b - 1)"
    proof -
      have "(2::real) powi (- b + 1) = 2 powi (- (b - 1))" by simp
      also have "\<dots> = inverse (2 powi (b - 1))" by (rule power_int_minus)
      also have "\<dots> = 1 / 2 ^ nat (b - 1)"
        using b by (simp add: powi_nat field_simps)
      finally show ?thesis .
    qed
    ultimately have h: "x < 2 powi (- b + 1)" by simp
    from l h show ?thesis by (simp add: e)
  qed
  then show "2 powi binade x \<le> x" and "x < 2 powi (binade x + 1)" by simp_all
qed

lemma dbl_error:
  assumes "0 < x"
  shows "\<bar>dbl x - x\<bar> \<le> x / 2 ^ 53"
proof -
  define s :: real where "s = 2 powi (binade x - 52)"
  have s: "0 < s" by (simp add: s_def)
  have "(2::real) powi binade x = 2 powi (52 + (binade x - 52))" by simp
  also have "\<dots> = 2 powi 52 * 2 powi (binade x - 52)"
    by (rule power_int_add) simp
  finally have "2 powi binade x = 2 ^ 52 * s"
    by (simp add: s_def)
  with binade_bounds(1) [OF assms] have x: "2 ^ 52 * s \<le> x" by simp
  have d: "dbl x = of_int (round_half_even (x / s)) * s"
    using assms by (simp add: dbl_def s_def Let_def)
  have "\<bar>dbl x - x\<bar> = \<bar>of_int (round_half_even (x / s)) - x / s\<bar> * s"
  proof -
    have "dbl x - x = (of_int (round_half_even (x / s)) - x / s) * s"
      using s by (simp add: d field_simps)
    then show ?thesis using s by (simp add: abs_mult)
  qed
  also have "\<dots> \<le> 1 / 2 * s"
    using round_half_even_error [of "x / s"] s by (simp add: mult_right_mono)
  also have "\<dots> \<le> x / 2 ^ 53"
    using x by simp
  finally show ?thesis .
qed

lemma two_roundings:
  fixes t q r u :: real
  assumes "0 < t" and "\<bar>q - t\<bar> \<le> t * u" and "\<bar>r - 100 * q\<bar> \<le> 100 * q * u"
    and "0 < u" and "u \<le> 1"
  shows "\<bar>r - 100 * t\<bar> \<le> 300 * t * u"
proof -
  from assms(2) have q: "q \<le> t + t * u" by linarith
  have "t * u * u \<le> t * u * 1"
    using assms(1,4,5) by (intro mult_left_mono) simp_all
  then have uu: "t * u * u \<le> t * u" by simp
  have "100 * q * u \<le> 100 * (t + t * u) * u"
    using q assms(4) by (simp add: mult_right_mono)
  also have "\<dots> = 100 * (t * u) + 100 * (t * u * u)"
    by (simp add: algebra_simps)
  also have "\<dots> \<le> 200 * (t * u)"
    using uu by simp
  finally have "\<bar>r - 100 * q\<bar> \<le> 200 * (t * u)"
    using assms(3) by linarith
  with assms(2) show ?thesis by linarith
qed

lemma rate_error:
  assumes "0 < t"
  shows "\<bar>dbl (dbl t * 100) - 100 * t\<bar> \<le> 100 * t / 2 ^ 51"
proof -
  define u :: real where "u = 1 / 2 ^ 53"
  have a: "\<bar>dbl t - t\<bar> \<le> t * u"
    using dbl_error [OF assms] by (simp add: u_def)
  then have "t - t * u \<le> dbl t" by linarith
  moreover have "t * u < t"
    using assms by (simp add: u_def)
  ultimately have q: "0 < dbl t * 100" by linarith
  have b: "\<bar>dbl (dbl t * 100) - 100 * dbl t\<bar> \<le> 100 * dbl t * u"
    using dbl_error [OF q] by (simp add: u_def mult.commute)
  have "\<bar>dbl (dbl t * 100) - 100 * t\<bar> \<le> 300 * t * u"
    by (rule two_roundings [OF assms a b]) (simp_all add: u_def)
  also have "\<dots> \<le> 100 * t / 2 ^ 51"
    using assms by (simp add: u_def)
  finally show ?thesis .
qed

text \<open>Values of the rounding: numbers that are binary64 numbers stay, others move.\<close>

lemma dbl_exact: "dbl 0 = 0" "dbl (1 / 2) = 1 / 2" "dbl 1 = 1" "dbl 50 = 50" "dbl 100 = 100"
  by code_simp+

lemma rate_7_of_100: "dbl (dbl (7 / 100) * 100) = 7 + 1 / 2 ^ 50"
  by code_simp

lemma rate_11_of_20: "dbl (dbl (11 / 20) * 100) = 55 + 1 / 2 ^ 47"
  by code_simp

lemma rate_23_of_80: "dbl (dbl (23 / 80) * 100) = 115 / 4 - 1 / 2 ^ 48"
  by code_simp

subsection \<open>Lists and runs\<close>

lemma py_sum_sum_list: "py_sum xs = sum_list xs"
proof -
  have "foldl (+) a xs = a + sum_list xs" for a :: real
    by (induction xs arbitrary: a) (simp_all add: add.assoc)
  from this [of 0] show ?thesis by (simp add: py_sum_def)
qed

lemma length_filter_split: "length [r \<leftarrow> rs. P r] + length [r \<leftarrow> rs. \<not> P r] = length rs"
  by (induction rs) simp_all

lemma shard_successes_split:
  "\<forall>r \<in> set rs. account_type r = ''ACCOUNT1'' \<or> account_type r = ''ACCOUNT2'' \<Longrightarrow>
   length [r \<leftarrow> [r \<leftarrow> rs. account_type r = ''ACCOUNT1'']. success r]
     + length [r \<leftarrow> [r \<leftarrow> rs. account_type r = ''ACCOUNT2'']. success r]
   = length [r \<leftarrow> rs. success r]"
  by (induction rs) auto

text \<open>The substring test is the contiguous-sublist relation of the list library.\<close>

lemma py_in_sublist: "py_in needle hay = sublist needle hay"
  by (induction hay) (simp_all add: sublist_Cons_right)

lemma py_range_4: "py_range 4 = [0, 1, 2, 3]"
  by code_simp

lemma py_range_20:
  "py_range 20 = [0, 1, 2, 3, 4, 5, 6, 7, 8, 9, 10, 11, 12, 13, 14, 15, 16, 17, 18, 19]"
  by code_simp

text \<open>Every completion order has each submitted task once, and every such order can occur.\<close>

lemma mset_finish_after: "mset (finish_after k x ys) = add_mset x (mset ys)"
proof -
  have "mset (take k ys) + mset (drop k ys) = mset ys"
    by (metis append_take_drop_id mset_append)
  then show ?thesis by (simp add: finish_after_def)
qed

lemma mset_completion_order: "mset (completion_order picks xs) = mset xs"
  by (induction xs arbitrary: picks) (simp_all add: mset_finish_after)

lemma length_completion_order: "length (completion_order picks xs) = length xs"
  using mset_completion_order [of picks xs] by (metis size_mset)

lemma completion_order_any:
  "mset ys = mset xs \<Longrightarrow> \<exists>picks. completion_order picks xs = ys"
proof (induction xs arbitrary: ys)
  case Nil
  then show ?case by simp
next
  case (Cons x xs)
  then have "x \<in> set ys"
    by (metis list.set_intros(1) set_mset_mset)
  then obtain as bs where ys: "ys = as @ x # bs"
    by (auto simp: in_set_conv_decomp)
  with Cons.prems have "mset (as @ bs) = mset xs" by simp
  from Cons.IH [OF this] obtain picks where picks: "completion_order picks xs = as @ bs"
    by blast
  have "completion_order (length as # picks) (x # xs) = ys"
    by (simp add: picks ys finish_after_def)
  then show ?case by blast
qed

lemma completion_order_Nil: "completion_order [] xs = xs"
  by (induction xs) (simp_all add: finish_after_def)

text \<open>The two scenario lists are what the dispatchers collect in submission order.\<close>

lemma scenario_results_run:
  "run_cris_demo 4 ''r1'' scenario_invoke [] = Inr scenario_results"
  by (simp add: run_cris_demo_def thread_pool_results_def cris_max_workers_def cris_worker_def
      cris_send_bedrock_request_def scenario_invoke_def scenario_results_def error_type_of_def
      truncate_content_def py_range_4 finish_after_def)

lemma scenario_shard_results_run:
  "run_cross_account_demo 4 ''round-robin'' scenario_cfg (Some ''111111111111'')
     (Some ''222222222222'') rnd scenario_shard_invoke [] = Inr scenario_shard_results"
  by (simp add: run_cross_account_demo_def thread_pool_results_def shard_max_workers_def
      shard_worker_def shard_send_bedrock_request_def scenario_shard_invoke_def
      scenario_invoke_def scenario_shard_results_def scenario_cfg_def error_type_of_def
      truncate_content_def use_primary_def py_falsy_def py_range_4 finish_after_def)

section \<open>Success rate\<close>

lemma success_counts:
  "successes rs + failures rs = length rs"
  by (simp add: successes_def failures_def length_filter_split)

lemma eleven_results_counts: "successes eleven_results = 11" "failures eleven_results = 9"
  by (simp_all add: successes_def failures_def eleven_results_def py_range_20 cris_worker_def
      cris_send_bedrock_request_def eleven_invoke_def)

text \<open>
  Claim C1 as stated fails: the rate is computed in binary64 arithmetic as the rounded
  quotient times 100, rounded again, and that is not always \<open>100 * S / (S + F)\<close>. In a run of
  the CRIS script with its default of 20 requests of which 11 succeed, the reported rate is
  \<open>55 + 2 ^ - 47\<close> (printed in full as 55.00000000000001), while \<open>100 * 11 / 20 = 55\<close>.
\<close>

theorem rate_of_eleven_in_twenty:
  "run_cris_demo 20 ''r1'' eleven_invoke [] = Inr eleven_results
   \<and> successful (cris_stats eleven_results) = 11
   \<and> failed (cris_stats eleven_results) = 9
   \<and> success_rate (cris_stats eleven_results) = 55 + 1 / 2 ^ 47
   \<and> spec_success_rate 11 9 = 55
   \<and> success_rate (cris_stats eleven_results)
       \<noteq> spec_success_rate (successes eleven_results) (failures eleven_results)"
proof -
  have run: "run_cris_demo 20 ''r1'' eleven_invoke [] = Inr eleven_results"
    by (simp add: run_cris_demo_def thread_pool_results_def cris_max_workers_def
        completion_order_Nil eleven_results_def)
  have len: "length eleven_results = 20"
    by (simp add: eleven_results_def py_range_def)
  have s: "successful (cris_stats eleven_results) = 11"
    using eleven_results_counts(1) by (simp add: cris_stats_def Let_def successes_def)
  have f: "failed (cris_stats eleven_results) = 9"
    using eleven_results_counts(2) by (simp add: cris_stats_def Let_def failures_def)
  have "success_rate (cris_stats eleven_results) = dbl (dbl (11 / 20) * 100)"
    using eleven_results_counts(1) len
    by (simp add: cris_stats_def Let_def successes_def float_mul_def int_truediv_def)
  then have r: "success_rate (cris_stats eleven_results) = 55 + 1 / 2 ^ 47"
    by (simp only: rate_11_of_20)
  have sp: "spec_success_rate 11 9 = 55"
    by (simp add: spec_success_rate_def)
  from run s f r sp show ?thesis
    by (simp add: eleven_results_counts)
qed

lemma rate_of_counts:
  "(if S + F = 0 then 0 else float_mul (int_truediv S (S + F)) 100)
     = (if S + F = 0 then 0 else dbl (dbl (real S / real (S + F)) * 100))
   \<and> \<bar>(if S + F = 0 then 0 else float_mul (int_truediv S (S + F)) 100) - spec_success_rate S F\<bar>
       \<le> spec_success_rate S F / 2 ^ 51
   \<and> (S = 0 \<longrightarrow> (if S + F = 0 then 0 else float_mul (int_truediv S (S + F)) 100) = 0)
   \<and> (0 < S \<and> F = 0 \<longrightarrow> (if S + F = 0 then 0 else float_mul (int_truediv S (S + F)) 100) = 100)"
proof (cases "S = 0")
  case True
  then show ?thesis
    by (simp add: float_mul_def int_truediv_def spec_success_rate_def dbl_exact)
next
  case False
  then have t: "0 < real S / real (S + F)" by simp
  have eq: "100 * (real S / real (S + F)) = spec_success_rate S F"
    using False by (simp add: spec_success_rate_def)
  have "\<bar>dbl (dbl (real S / real (S + F)) * 100) - spec_success_rate S F\<bar>
          \<le> spec_success_rate S F / 2 ^ 51"
    using rate_error [OF t] unfolding eq .
  moreover have "dbl (dbl (real S / real (S + F)) * 100) = 100" if "F = 0"
    using False that by (simp add: dbl_exact)
  ultimately show ?thesis
    using False by (simp add: float_mul_def int_truediv_def)
qed

text \<open>
  Claim C1, amended. For every list of collected results with \<open>S\<close> successes and \<open>F\<close>
  failures, the analyzers report \<open>S\<close>, \<open>F\<close> and the total \<open>S + F\<close> exactly. The reported
  success rate is 0 when \<open>S + F = 0\<close>, and otherwise the binary64 value of
  \<open>(S / (S + F)) * 100\<close>: the quotient rounded to binary64, times 100, rounded again. It lies
  within the relative distance \<open>2 ^ - 51\<close> of \<open>100 * S / (S + F)\<close>, is 0 when \<open>S = 0\<close> and 100
  when \<open>F = 0\<close>, and need not be equal to it otherwise. For the account-sharding analyzer the
  results carry one of the two account labels that its dispatcher assigns.
\<close>

theorem success_rate_rounded:
  fixes rs :: "'a probe_result_scheme list" and ss :: "'b shard_result_scheme list"
  shows "successful (cris_stats rs) = successes rs
       \<and> failed (cris_stats rs) = failures rs
       \<and> total_requests (cris_stats rs) = successes rs + failures rs
       \<and> success_rate (cris_stats rs)
            = (if successes rs + failures rs = 0 then 0
               else dbl (dbl (real (successes rs) / real (successes rs + failures rs)) * 100))
       \<and> \<bar>success_rate (cris_stats rs) - spec_success_rate (successes rs) (failures rs)\<bar>
            \<le> spec_success_rate (successes rs) (failures rs) / 2 ^ 51
       \<and> (successes rs = 0 \<longrightarrow> success_rate (cris_stats rs) = 0)
       \<and> (0 < successes rs \<and> failures rs = 0 \<longrightarrow> success_rate (cris_stats rs) = 100)
       \<and> ((\<forall>r \<in> set ss. account_type r = ''ACCOUNT1'' \<or> account_type r = ''ACCOUNT2'') \<longrightarrow>
            sh_successful (shard_stats ss) = successes ss
          \<and> sh_failed (shard_stats ss) = failures ss
          \<and> sh_total_requests (shard_stats ss) = successes ss + failures ss
          \<and> sh_success_rate (shard_stats ss)
               = (if successes ss + failures ss = 0 then 0
                  else dbl (dbl (real (successes ss) / real (successes ss + failures ss)) * 100))
          \<and> \<bar>sh_success_rate (shard_stats ss) - spec_success_rate (successes ss) (failures ss)\<bar>
               \<le> spec_success_rate (successes ss) (failures ss) / 2 ^ 51
          \<and> (successes ss = 0 \<longrightarrow> sh_success_rate (shard_stats ss) = 0)
          \<and> (0 < successes ss \<and> failures ss = 0 \<longrightarrow> sh_success_rate (shard_stats ss) = 100))"
proof -
  have c_rate: "success_rate (cris_stats rs)
      = (if successes rs + failures rs = 0 then 0
         else float_mul (int_truediv (successes rs) (successes rs + failures rs)) 100)"
    unfolding success_counts by (simp add: cris_stats_def Let_def successes_def)
  have c_counts: "successful (cris_stats rs) = successes rs"
    "failed (cris_stats rs) = failures rs"
    "total_requests (cris_stats rs) = successes rs + failures rs"
    unfolding success_counts by (simp_all add: cris_stats_def Let_def successes_def failures_def)
  note c = rate_of_counts [of "successes rs" "failures rs", folded c_rate]
  have s: "sh_successful (shard_stats ss) = successes ss
          \<and> sh_failed (shard_stats ss) = failures ss
          \<and> sh_total_requests (shard_stats ss) = successes ss + failures ss
          \<and> sh_success_rate (shard_stats ss)
               = (if successes ss + failures ss = 0 then 0
                  else dbl (dbl (real (successes ss) / real (successes ss + failures ss)) * 100))
          \<and> \<bar>sh_success_rate (shard_stats ss) - spec_success_rate (successes ss) (failures ss)\<bar>
               \<le> spec_success_rate (successes ss) (failures ss) / 2 ^ 51
          \<and> (successes ss = 0 \<longrightarrow> sh_success_rate (shard_stats ss) = 0)
          \<and> (0 < successes ss \<and> failures ss = 0 \<longrightarrow> sh_success_rate (shard_stats ss) = 100)"
    if labels: "\<forall>r \<in> set ss. account_type r = ''ACCOUNT1'' \<or> account_type r = ''ACCOUNT2''"
  proof -
    note sp = shard_successes_split [OF labels]
    have sc: "sh_successful (shard_stats ss) = successes ss"
      using sp by (simp add: shard_stats_def Let_def successes_def)
    have "length ss - successes ss = failures ss"
      using success_counts [of ss] by simp
    then have sf: "sh_failed (shard_stats ss) = failures ss"
      using sp by (simp add: shard_stats_def Let_def successes_def)
    have st: "sh_total_requests (shard_stats ss) = successes ss + failures ss"
      unfolding success_counts by (simp add: shard_stats_def Let_def)
    have s_rate: "sh_success_rate (shard_stats ss)
        = (if successes ss + failures ss = 0 then 0
           else float_mul (int_truediv (successes ss) (successes ss + failures ss)) 100)"
      unfolding success_counts using sp by (simp add: shard_stats_def Let_def successes_def)
    note r = rate_of_counts [of "successes ss" "failures ss", folded s_rate]
    from sc sf st r show ?thesis by blast
  qed
  from c_counts c s show ?thesis by blast
qed

theorem success_rate_rounded_witness:
  "success_rate (cris_stats scenario_results) = 50
   \<and> sh_success_rate (shard_stats scenario_shard_results) = 50
   \<and> sh_total_requests (shard_stats scenario_shard_results) = 4
   \<and> success_rate (cris_stats ([] :: probe_result list)) = 0
   \<and> \<bar>success_rate (cris_stats eleven_results) - 55\<bar> \<le> 55 / 2 ^ 51"
proof -
  have labels: "\<forall>r \<in> set scenario_shard_results.
      account_type r = ''ACCOUNT1'' \<or> account_type r = ''ACCOUNT2''"
    by (simp add: scenario_shard_results_def)
  have n: "successes scenario_results = 2" "failures scenario_results = 2"
    "successes scenario_shard_results = 2" "failures scenario_shard_results = 2"
    "successes ([] :: probe_result list) = 0" "failures ([] :: probe_result list) = 0"
    by (simp_all add: successes_def failures_def scenario_results_def scenario_shard_results_def)
  have sp: "spec_success_rate 11 9 = 55"
    by (simp add: spec_success_rate_def)
  from success_rate_rounded [of scenario_results scenario_shard_results] labels
  have a: "success_rate (cris_stats scenario_results) = 50"
    and b: "sh_success_rate (shard_stats scenario_shard_results) = 50"
    and c: "sh_total_requests (shard_stats scenario_shard_results) = 4"
    by (simp_all add: n dbl_exact)
  from success_rate_rounded [of "[] :: probe_result list" scenario_shard_results]
  have d: "success_rate (cris_stats ([] :: probe_result list)) = 0"
    by (simp add: n)
  from success_rate_rounded [of eleven_results scenario_shard_results]
  have "\<bar>success_rate (cris_stats eleven_results)
          - spec_success_rate (successes eleven_results) (failures eleven_results)\<bar>
        \<le> spec_success_rate (successes eleven_results) (failures eleven_results) / 2 ^ 51"
    by blast
  then have e: "\<bar>success_rate (cris_stats eleven_results) - 55\<bar> \<le> 55 / 2 ^ 51"
    unfolding eleven_results_counts sp .
  from a b c d e show ?thesis by blast
qed


section \<open>Mean response time\<close>

text \<open>
  The CRIS analyzer's mean is the arithmetic mean over the successful results, and 0 when
  there is none; so are the two per-account means of the account-sharding analyzer, each over
  the successful results of its account.
\<close>

lemma cris_mean_over_successes:
  "avg_response_time (cris_stats rs) = spec_mean (map response_time [r \<leftarrow> rs. success r])"
  by (simp add: cris_stats_def Let_def spec_mean_def py_sum_sum_list)

lemma shard_account_means_over_successes:
  "primary_avg_time (shard_stats ss)
     = spec_mean (map response_time [r \<leftarrow> ss. account_type r = ''ACCOUNT1'' \<and> success r])
   \<and> secondary_avg_time (shard_stats ss)
     = spec_mean (map response_time [r \<leftarrow> ss. account_type r = ''ACCOUNT2'' \<and> success r])"
  by (simp add: shard_stats_def Let_def spec_mean_def py_sum_sum_list conj_commute)

lemma cris_scenario_report:
  "cris_stats scenario_results
     = \<lparr>total_requests = 4, successful = 2, failed = 2, success_rate = 50, avg_response_time = 1\<rparr>"
  by (simp add: cris_stats_def scenario_results_def py_sum_def float_mul_def int_truediv_def
      dbl_exact)

text \<open>
  Claim C2, at the end-to-end scenario in the account-sharding script under its default
  round-robin strategy: the dispatcher collects \<open>scenario_shard_results\<close>, whose successful
  results have mean latency 1 (the figure the CRIS analyzer reports for the same calls). The
  \<^verbatim>\<open>TOTAL\<close> row of the account-sharding table shows total 4, successful 2, failed 2 and rate
  50, but as its average time the midpoint of the two per-account figures, which is 1/2: the
  second account has no success, and its placeholder 0 enters the midpoint.
\<close>

theorem shard_total_row_at_scenario:
  "run_cross_account_demo 4 ''round-robin'' scenario_cfg (Some ''111111111111'')
     (Some ''222222222222'') rnd scenario_shard_invoke [] = Inr scenario_shard_results
   \<and> sh_total_requests (shard_stats scenario_shard_results) = 4
   \<and> sh_successful (shard_stats scenario_shard_results) = 2
   \<and> sh_failed (shard_stats scenario_shard_results) = 2
   \<and> sh_success_rate (shard_stats scenario_shard_results) = 50
   \<and> primary_avg_time (shard_stats scenario_shard_results) = 1
   \<and> secondary_avg_time (shard_stats scenario_shard_results) = 0
   \<and> total_row_avg_time (shard_stats scenario_shard_results) = 1 / 2
   \<and> spec_mean (map response_time [r \<leftarrow> scenario_shard_results. success r]) = 1
   \<and> avg_response_time (cris_stats scenario_shard_results) = 1"
proof -
  have "shard_stats scenario_shard_results
      = \<lparr>sh_total_requests = 4, sh_successful = 2, sh_failed = 2, sh_success_rate = 50,
         primary_requests = 2, secondary_requests = 2,
         primary_successful = 2, primary_failed = 0, primary_throttled = 0,
         secondary_successful = 0, secondary_failed = 2, secondary_throttled = 2,
         primary_avg_time = 1, secondary_avg_time = 0, total_row_avg_time = 1 / 2\<rparr>"
    by (simp add: shard_stats_def scenario_shard_results_def py_sum_def float_mul_def
        int_truediv_def dbl_exact)
  moreover have "spec_mean (map response_time [r \<leftarrow> scenario_shard_results. success r]) = 1"
    by (simp add: scenario_shard_results_def spec_mean_def)
  moreover have "avg_response_time (cris_stats scenario_shard_results) = 1"
    by (simp add: cris_stats_def scenario_shard_results_def py_sum_def)
  ultimately show ?thesis
    by (simp add: scenario_shard_results_run)
qed

section \<open>Result count after the dispatch\<close>

lemma cris_worker_request_id: "request_id (cris_worker m invoke i) = i + 1"
  by (simp add: cris_worker_def cris_send_bedrock_request_def Let_def split: call_outcome.split)

lemma shard_worker_request_id: "request_id (shard_worker cfg s n rnd invoke i) = i + 1"
  by (simp add: shard_worker_def shard_send_bedrock_request_def Let_def split: call_outcome.split)

lemma length_py_range: "length (py_range n) = nat n"
  by (simp add: py_range_def)

text \<open>
  Claim C3. For every batch size \<open>n\<close> between 1 and 100, every strategy (the random one with
  any choices), every outcome of the calls and every completion order of the workers, both
  dispatchers hand exactly \<open>n\<close> results to the analysis, one for each request id
  \<open>1, \<dots>, n\<close>; the account-sharding dispatcher does so once both accounts are verified.
\<close>

theorem result_count_after_barrier:
  assumes "1 \<le> n" and "n \<le> 100"
  shows "(\<exists>rs. run_cris_demo n m invoke picks = Inr rs
            \<and> length rs = nat n
            \<and> total_requests (cris_stats rs) = nat n
            \<and> mset (map request_id rs) = mset (map (\<lambda>i. i + 1) (py_range n)))
       \<and> (\<not> py_falsy pa \<and> \<not> py_falsy sa \<longrightarrow>
            (\<exists>rs. run_cross_account_demo n strategy cfg pa sa rnd invoke' picks = Inr rs
               \<and> length rs = nat n
               \<and> sh_total_requests (shard_stats rs) = nat n
               \<and> mset (map request_id rs) = mset (map (\<lambda>i. i + 1) (py_range n))))"
proof -
  define completion where "completion = completion_order picks (py_range n)"
  let ?cs = "map (cris_worker m invoke) completion"
  let ?ss = "map (shard_worker cfg strategy n rnd invoke') completion"
  have perm: "mset completion = mset (py_range n)"
    unfolding completion_def by (rule mset_completion_order)
  then have len: "length completion = nat n"
    using length_py_range mset_eq_length by metis
  have ids: "mset (map (\<lambda>i. i + 1) completion) = mset (map (\<lambda>i. i + 1) (py_range n))"
    using perm by simp
  have "map request_id ?cs = map (\<lambda>i. i + 1) completion"
    by (simp add: cris_worker_request_id)
  with ids have c_ids: "mset (map request_id ?cs) = mset (map (\<lambda>i. i + 1) (py_range n))"
    by (simp only:)
  have c_run: "run_cris_demo n m invoke picks = Inr ?cs"
    using assms(1)
    by (simp add: run_cris_demo_def thread_pool_results_def cris_max_workers_def completion_def)
  have c_len: "length ?cs = nat n" "total_requests (cris_stats ?cs) = nat n"
    using len by (simp_all add: cris_stats_def Let_def)
  have "map request_id ?ss = map (\<lambda>i. i + 1) completion"
    by (simp add: shard_worker_request_id)
  with ids have s_ids: "mset (map request_id ?ss) = mset (map (\<lambda>i. i + 1) (py_range n))"
    by (simp only:)
  have s_run: "run_cross_account_demo n strategy cfg pa sa rnd invoke' picks = Inr ?ss"
    if "\<not> py_falsy pa" "\<not> py_falsy sa"
    using assms(1) that
    by (simp add: run_cross_account_demo_def thread_pool_results_def shard_max_workers_def
        completion_def)
  have s_len: "length ?ss = nat n" "sh_total_requests (shard_stats ?ss) = nat n"
    using len by (simp_all add: shard_stats_def Let_def)
  from c_run c_len c_ids s_run s_len s_ids show ?thesis by blast
qed

theorem result_count_after_barrier_witness:
  "(\<exists>rs. run_cris_demo 4 ''r1'' scenario_invoke [1, 0, 1] = Inr rs \<and> length rs = 4)
   \<and> (\<exists>rs. run_cross_account_demo 4 ''random'' scenario_cfg (Some ''111111111111'')
              (Some ''222222222222'') (\<lambda>i. i = 2) scenario_shard_invoke [1, 0, 1] = Inr rs
            \<and> length rs = 4)"
proof -
  have a: "\<not> py_falsy (Some ''111111111111'')" "\<not> py_falsy (Some ''222222222222'')"
    by (simp_all add: py_falsy_def)
  have "(1::int) \<le> 4" "(4::int) \<le> 100" by simp_all
  from result_count_after_barrier [OF this, of "''r1''" scenario_invoke "[1, 0, 1]"
      "Some ''111111111111''" "Some ''222222222222''" "''random''" scenario_cfg "\<lambda>i. i = 2"
      scenario_shard_invoke] a
  show ?thesis by auto
qed


section \<open>Error classification\<close>

text \<open>
  Claim C6 as stated fails: a message that contains \<^verbatim>\<open>AccessDenied\<close> (and no throttling marker)
  gives the result the generic kind \<^verbatim>\<open>Error\<close>, in both scripts; no result ever carries an
  access-denied kind.
\<close>

theorem access_denied_is_generic_error:
  "py_in ''AccessDenied''
     ''An error occurred (AccessDeniedException) when calling the InvokeModel operation''
   \<and> error (cris_send_bedrock_request 1 ''r1''
        (Raised ''An error occurred (AccessDeniedException) when calling the InvokeModel operation''))
       = Some ''Error''
   \<and> error (shard_send_bedrock_request 1 ''r1'' ''default'' ''ACCOUNT1''
        (Raised ''An error occurred (AccessDeniedException) when calling the InvokeModel operation''))
       = Some ''Error''"
  by (simp add: cris_send_bedrock_request_def shard_send_bedrock_request_def error_type_of_def)

text \<open>
  Claim C6, amended. The error kind of a failed call is \<^verbatim>\<open>ThrottlingException\<close> when the
  message contains \<^verbatim>\<open>ThrottlingException\<close> or \<^verbatim>\<open>ServiceQuota\<close>, and the generic \<^verbatim>\<open>Error\<close> for
  every other message, those containing \<^verbatim>\<open>AccessDenied\<close> included. The CRIS script tells an
  access-denied message apart only in the label of its log line.
\<close>

theorem error_kind_of_failed_call:
  "error (cris_send_bedrock_request rid m (Raised msg))
     = Some (if sublist ''ThrottlingException'' msg \<or> sublist ''ServiceQuota'' msg
             then ''ThrottlingException'' else ''Error'')
   \<and> error (shard_send_bedrock_request rid m p a (Raised msg))
     = Some (if sublist ''ThrottlingException'' msg \<or> sublist ''ServiceQuota'' msg
             then ''ThrottlingException'' else ''Error'')
   \<and> (sublist ''AccessDenied'' msg \<and> \<not> sublist ''ThrottlingException'' msg
        \<and> \<not> sublist ''ServiceQuota'' msg \<and> \<not> sublist ''ValidationException'' msg
      \<longrightarrow> cris_log_line (Raised msg) = ''ERROR | Access Denied'')"
  by (simp add: cris_send_bedrock_request_def shard_send_bedrock_request_def error_type_of_def
      cris_log_line_def sanitized_error_def py_in_sublist)

theorem error_kind_of_failed_call_witness:
  "error (cris_send_bedrock_request 2 ''r1''
      (Raised ''An error occurred (ThrottlingException) when calling the InvokeModel operation''))
     = Some ''ThrottlingException''
   \<and> error (shard_send_bedrock_request 2 ''r1'' ''default'' ''ACCOUNT1'' (Raised ''Read timeout''))
     = Some ''Error''
   \<and> cris_log_line (Raised ''AccessDeniedException: not authorized'') = ''ERROR | Access Denied''"
proof -
  have t: "sublist ''ThrottlingException''
      ''An error occurred (ThrottlingException) when calling the InvokeModel operation''"
    unfolding py_in_sublist [symmetric] by simp
  have r: "\<not> sublist ''ThrottlingException'' ''Read timeout''"
    "\<not> sublist ''ServiceQuota'' ''Read timeout''"
    unfolding py_in_sublist [symmetric] by simp_all
  have d: "sublist ''AccessDenied'' ''AccessDeniedException: not authorized''"
    "\<not> sublist ''ThrottlingException'' ''AccessDeniedException: not authorized''"
    "\<not> sublist ''ServiceQuota'' ''AccessDeniedException: not authorized''"
    "\<not> sublist ''ValidationException'' ''AccessDeniedException: not authorized''"
    unfolding py_in_sublist [symmetric] by simp_all
  from t r d
    error_kind_of_failed_call [of 2 "''r1''"
      "''An error occurred (ThrottlingException) when calling the InvokeModel operation''"]
    error_kind_of_failed_call [of 2 "''r1''" "''Read timeout''" "''default''" "''ACCOUNT1''"]
    error_kind_of_failed_call [of 2 "''r1''" "''AccessDeniedException: not authorized''"]
  show ?thesis by simp
qed

section \<open>Partition assignment\<close>

lemma shard_worker_account:
  "account_type (shard_worker cfg s n rnd invoke i)
     = (if use_primary s n rnd i then ''ACCOUNT1'' else ''ACCOUNT2'')"
  by (simp add: shard_worker_def shard_send_bedrock_request_def Let_def split: call_outcome.split)

lemma use_primary_split_20: "use_primary ''split'' 20 rnd i = (i < 10)"
  by (simp add: use_primary_def)

lemma use_primary_round_robin: "use_primary ''round-robin'' n rnd i = (i mod 2 = 0)"
  by (simp add: use_primary_def)

text \<open>
  Claim C7. Under the split strategy with 20 requests, the sequence ids sent to the first
  account are exactly \<open>0, \<dots>, 9\<close> and those sent to the second account are exactly
  \<open>10, \<dots>, 19\<close>. Under the round-robin strategy, for every batch size, a sequence id goes to
  the first account when it is even (and to the second when it is odd).
\<close>

theorem partition_assignment:
  "[i \<leftarrow> py_range 20. account_type (shard_worker cfg ''split'' 20 rnd invoke i) = ''ACCOUNT1'']
     = [0, 1, 2, 3, 4, 5, 6, 7, 8, 9]
   \<and> [i \<leftarrow> py_range 20. account_type (shard_worker cfg ''split'' 20 rnd invoke i) = ''ACCOUNT2'']
     = [10, 11, 12, 13, 14, 15, 16, 17, 18, 19]
   \<and> account_type (shard_worker cfg ''round-robin'' n rnd invoke i)
       = (if i mod 2 = 0 then ''ACCOUNT1'' else ''ACCOUNT2'')"
  by (simp add: py_range_20 shard_worker_account use_primary_split_20 use_primary_round_robin)

theorem partition_assignment_witness:
  "account_type (shard_worker scenario_cfg ''round-robin'' 7 (\<lambda>i. False) scenario_shard_invoke 4)
     = ''ACCOUNT1''
   \<and> account_type (shard_worker scenario_cfg ''round-robin'' 7 (\<lambda>i. False) scenario_shard_invoke 5)
     = ''ACCOUNT2''"
  using partition_assignment [of scenario_cfg "\<lambda>i. False" scenario_shard_invoke 7 4]
    partition_assignment [of scenario_cfg "\<lambda>i. False" scenario_shard_invoke 7 5]
  by simp

section \<open>Size of the worker pool\<close>

text \<open>
  Claim C8 as stated fails in the CRIS script: a valid request count of 50 gives it a pool of
  50 workers, not \<open>min 50 20 = 20\<close>.
\<close>

theorem cris_pool_exceeds_ceiling:
  "cris_main 50 = RunCrisDemo 50 \<and> cris_max_workers 50 \<noteq> min 50 20"
  by (simp add: cris_main_def cris_max_workers_def)

text \<open>
  Claim C8, amended. The account-sharding dispatcher runs its workers in a pool of
  \<open>min n 20\<close>; the CRIS dispatcher runs them in a pool of \<open>n\<close>, which the check of the
  command line keeps between 1 and 100.
\<close>

theorem pool_size_per_script:
  "shard_max_workers n = min n 20
   \<and> (\<not> py_falsy pa \<and> \<not> py_falsy sa \<longrightarrow>
        run_cross_account_demo n s cfg pa sa rnd invoke' picks
          = thread_pool_results (min n 20) (shard_worker cfg s n rnd invoke') (py_range n) picks)
   \<and> cris_max_workers n = n
   \<and> run_cris_demo n m invoke picks
       = thread_pool_results n (cris_worker m invoke) (py_range n) picks
   \<and> (cris_main n = RunCrisDemo n \<longrightarrow> 1 \<le> cris_max_workers n \<and> cris_max_workers n \<le> 100)"
  by (simp add: shard_max_workers_def cris_max_workers_def run_cross_account_demo_def
      run_cris_demo_def cris_main_def)

theorem pool_size_per_script_witness:
  "shard_max_workers 50 = 20 \<and> shard_max_workers 7 = 7 \<and> cris_max_workers 50 = 50
   \<and> cris_main 50 = RunCrisDemo 50"
  using pool_size_per_script [of 50] pool_size_per_script [of 7]
  by (simp add: cris_main_def)

section \<open>Validation of the command line\<close>

text \<open>Without the loop flag the interval is not looked at, and the demonstration runs once.\<close>

lemma lb_interval_unused_without_loop: "lb_main False interval = RunDemoOnce"
  by (simp add: lb_main_def)

text \<open>
  Claim C9. A request count below 1 or above 100 makes the CRIS and the account-sharding
  scripts print an error line and exit with status 1 without handing over to the dispatch; so
  does, in a looping run of the load-balancing script (the loop flag is set), an interval
  below 5 seconds.
\<close>

theorem invalid_arguments_exit:
  "((requests < 1 \<or> requests > 100) \<longrightarrow>
      (\<exists>msg. msg \<noteq> [] \<and> cris_main requests = Exit 1 msg)
      \<and> (\<exists>msg. msg \<noteq> [] \<and> shard_main requests strategy = Exit 1 msg)
      \<and> \<not> dispatches (cris_main requests) \<and> \<not> dispatches (shard_main requests strategy))
   \<and> (interval < 5 \<longrightarrow>
      (\<exists>msg. msg \<noteq> [] \<and> lb_main True interval = Exit 1 msg)
      \<and> \<not> dispatches (lb_main True interval))"
  by (auto simp: cris_main_def shard_main_def lb_main_def)

theorem invalid_arguments_exit_witness:
  "\<not> dispatches (cris_main 0) \<and> \<not> dispatches (cris_main 101)
   \<and> \<not> dispatches (shard_main (- 3) ''split'') \<and> \<not> dispatches (lb_main True 4)
   \<and> cris_main 101 = Exit 1 ''Error: Maximum 100 requests allowed to avoid overwhelming the system''"
  using invalid_arguments_exit [of 0 "''split''" 4]
    invalid_arguments_exit [of 101 "''split''" 4]
    invalid_arguments_exit [of "- 3" "''split''" 4]
  by (simp add: cris_main_def)

section \<open>Results of failed calls\<close>

text \<open>
  Claim C10 as stated fails in the load-balancing script: the result of a failed call names
  the model \<^verbatim>\<open>"error"\<close>, not \<^verbatim>\<open>None\<close>.
\<close>

theorem lb_failed_call_names_a_model:
  "\<not> success (lb_send_request 1 (Raised ''Request timed out.''))
   \<and> model_used (lb_send_request 1 (Raised ''Request timed out.'')) \<noteq> None"
  by (simp add: lb_send_request_def)

lemma failures_add_nothing:
  "\<forall>r \<in> set rs. \<not> success r \<longrightarrow> response_time r = 0 \<Longrightarrow>
   py_sum (map response_time rs) = py_sum (map response_time [r \<leftarrow> rs. success r])"
  unfolding py_sum_sum_list by (induction rs) auto

text \<open>
  Claim C10, amended. Every failed call gives a result with \<open>success = False\<close> and
  \<open>response_time = 0\<close>; its \<open>model_used\<close> is \<open>None\<close> in the CRIS and the account-sharding
  scripts and the string \<^verbatim>\<open>"error"\<close> in the load-balancing script. Hence, for the results of
  any calls, the sum of the response times over all results is the sum over the successful
  ones.
\<close>

theorem failed_call_result:
  "\<not> success (cris_send_bedrock_request rid m (Raised msg))
   \<and> response_time (cris_send_bedrock_request rid m (Raised msg)) = 0
   \<and> model_used (cris_send_bedrock_request rid m (Raised msg)) = None
   \<and> \<not> success (shard_send_bedrock_request rid m p a (Raised msg))
   \<and> response_time (shard_send_bedrock_request rid m p a (Raised msg)) = 0
   \<and> model_used (shard_send_bedrock_request rid m p a (Raised msg)) = None
   \<and> \<not> success (lb_send_request rid (Raised msg))
   \<and> response_time (lb_send_request rid (Raised msg)) = 0
   \<and> model_used (lb_send_request rid (Raised msg)) = Some ''error''
   \<and> py_sum (map response_time (map (\<lambda>c. cris_send_bedrock_request (fst c) m (snd c)) calls))
       = py_sum (map response_time
           [r \<leftarrow> map (\<lambda>c. cris_send_bedrock_request (fst c) m (snd c)) calls. success r])
   \<and> py_sum (map response_time (map (\<lambda>c. shard_send_bedrock_request (fst c) m p a (snd c)) calls))
       = py_sum (map response_time
           [r \<leftarrow> map (\<lambda>c. shard_send_bedrock_request (fst c) m p a (snd c)) calls. success r])
   \<and> py_sum (map response_time (map (\<lambda>c. lb_send_request (fst c) (snd c)) calls))
       = py_sum (map response_time [r \<leftarrow> map (\<lambda>c. lb_send_request (fst c) (snd c)) calls. success r])"
proof -
  have c: "\<forall>r \<in> set (map (\<lambda>c. cris_send_bedrock_request (fst c) m (snd c)) calls).
             \<not> success r \<longrightarrow> response_time r = 0"
    by (auto simp: cris_send_bedrock_request_def split: call_outcome.splits)
  have s: "\<forall>r \<in> set (map (\<lambda>c. shard_send_bedrock_request (fst c) m p a (snd c)) calls).
             \<not> success r \<longrightarrow> response_time r = 0"
    by (auto simp: shard_send_bedrock_request_def split: call_outcome.splits)
  have l: "\<forall>r \<in> set (map (\<lambda>c. lb_send_request (fst c) (snd c)) calls).
             \<not> success r \<longrightarrow> response_time r = 0"
    by (auto simp: lb_send_request_def split: call_outcome.splits)
  have single: "\<not> success (cris_send_bedrock_request rid m (Raised msg))
   \<and> response_time (cris_send_bedrock_request rid m (Raised msg)) = 0
   \<and> model_used (cris_send_bedrock_request rid m (Raised msg)) = None
   \<and> \<not> success (shard_send_bedrock_request rid m p a (Raised msg))
   \<and> response_time (shard_send_bedrock_request rid m p a (Raised msg)) = 0
   \<and> model_used (shard_send_bedrock_request rid m p a (Raised msg)) = None
   \<and> \<not> success (lb_send_request rid (Raised msg))
   \<and> response_time (lb_send_request rid (Raised msg)) = 0
   \<and> model_used (lb_send_request rid (Raised msg)) = Some ''error''"
    by (simp add: cris_send_bedrock_request_def shard_send_bedrock_request_def lb_send_request_def)
  from single failures_add_nothing [OF c] failures_add_nothing [OF s] failures_add_nothing [OF l]
  show ?thesis by blast
qed

theorem failed_call_result_witness:
  "model_used (cris_send_bedrock_request 2 ''r1'' (Raised ''Read timeout'')) = None
   \<and> model_used (lb_send_request 2 (Raised ''Read timeout'')) = Some ''error''
   \<and> py_sum (map response_time
        (map (\<lambda>c. lb_send_request (fst c) (snd c))
           [(1, Returned 1 ''m1''), (2, Raised ''Read timeout''), (3, Returned 3 ''m2'')])) = 4"
proof -
  note inst = failed_call_result [of 2 "''r1''" "''Read timeout''" "''default''" "''ACCOUNT1''"
      "[(1, Returned 1 ''m1''), (2, Raised ''Read timeout''), (3, Returned 3 ''m2'')]"]
  have w: "py_sum (map response_time
          [r \<leftarrow> map (\<lambda>c. lb_send_request (fst c) (snd c))
             [(1, Returned 1 ''m1''), (2, Raised ''Read timeout''), (3, Returned 3 ''m2'')].
           success r]) = 4"
    by (simp add: lb_send_request_def py_sum_def)
  from inst have a: "model_used (cris_send_bedrock_request 2 ''r1'' (Raised ''Read timeout'')) = None"
    by blast
  from inst have b: "model_used (lb_send_request 2 (Raised ''Read timeout'')) = Some ''error''"
    by blast
  from inst have c: "py_sum (map response_time
        (map (\<lambda>c. lb_send_request (fst c) (snd c))
           [(1, Returned 1 ''m1''), (2, Raised ''Read timeout''), (3, Returned 3 ''m2'')]))
      = py_sum (map response_time
          [r \<leftarrow> map (\<lambda>c. lb_send_request (fst c) (snd c))
             [(1, Returned 1 ''m1''), (2, Raised ''Read timeout''), (3, Returned 3 ''m2'')].
           success r])"
    by blast
  from a b trans [OF c w] show ?thesis by blast
qed


section \<open>The polling loops\<close>

text \<open>
  A loop with a conditional \<^verbatim>\<open>break\<close> runs its body on a non-empty prefix of the list: the
  leaving condition fails after every proper prefix of that prefix, and it holds at the end
  unless the whole list was used.
\<close>

lemma for_break_char:
  "\<exists>k \<le> length xs. (xs \<noteq> [] \<longrightarrow> 1 \<le> k)
      \<and> for_break body leave xs st = fold body (take k xs) st
      \<and> (\<forall>j. 0 < j \<and> j < k \<longrightarrow> \<not> leave (fold body (take j xs) st))
      \<and> (k < length xs \<longrightarrow> leave (fold body (take k xs) st))"
proof (induction xs arbitrary: st)
  case Nil
  show ?case by simp
next
  case (Cons x xs)
  show ?case
  proof (cases "leave (body x st)")
    case True
    then show ?thesis
      by (intro exI [of _ 1]) (simp add: Let_def)
  next
    case False
    from Cons.IH [of "body x st"] obtain k where k: "k \<le> length xs"
      "xs \<noteq> [] \<longrightarrow> 1 \<le> k"
      "for_break body leave xs (body x st) = fold body (take k xs) (body x st)"
      "\<forall>j. 0 < j \<and> j < k \<longrightarrow> \<not> leave (fold body (take j xs) (body x st))"
      "k < length xs \<longrightarrow> leave (fold body (take k xs) (body x st))"
      by blast
    show ?thesis
    proof (cases "xs = []")
      case True
      with False show ?thesis by (intro exI [of _ 1]) (simp add: Let_def)
    next
      case nonempty: False
      have "\<not> leave (fold body (take j (x # xs)) st)" if "0 < j" "j < Suc k" for j
      proof (cases j)
        case 0
        with that show ?thesis by simp
      next
        case (Suc j')
        show ?thesis
        proof (cases j')
          case 0
          with Suc False show ?thesis by simp
        next
          case (Suc j'')
          with \<open>j = Suc j'\<close> that k(4) show ?thesis by simp
        qed
      qed
      with False k nonempty show ?thesis
        by (intro exI [of _ "Suc k"]) (simp add: Let_def)
    qed
  qed
qed

text \<open>The count that a parsed answer carries is the sum of the counts of its rows.\<close>

lemma parse_rows_total:
  "snd (parse_rows rows (d, t)) = t + sum_list (map row_count rows)"
  by (induction rows "(d, t)" arbitrary: d t rule: parse_rows.induct) simp_all

lemma summed_count:
  "get_total_invocations (fst (query_cloudwatch_distribution (Results rows)))
     = sum_list (map row_count rows)"
  by (simp add: query_cloudwatch_distribution_def get_cloudwatch_results_def parse_rows_total)

lemma upt_max_attempts: "[0..<max_attempts] = [0, 1, 2, 3, 4]"
  by (simp add: max_attempts_def upt_rec)

lemma take_attempts: "j \<le> 5 \<Longrightarrow> take j [0..<max_attempts] = [0..<j]"
  by (simp add: take_upt max_attempts_def)

subsection \<open>CRIS script\<close>

lemma fold_cris_attempt:
  "fold (cris_attempt q) [0..<k] st
     = (if k = 0 then st
        else \<lparr>cloudwatch_results = cris_answer q (k - 1),
              has_regions = snd (query_cloudwatch_distribution (q (k - 1))),
              events = events st @ concat (map cris_attempt_events [0..<k])\<rparr>)"
  by (induction k) (simp_all add: cris_attempt_def cris_answer_def cris_attempt_events_def Let_def)

lemma attempts_made_cris: "attempts_made (concat (map cris_attempt_events [0..<k])) = k"
  by (induction k) (simp_all add: attempts_made_def cris_attempt_events_def)

lemma query_in_cris_events:
  "Query i \<in> set (concat (map cris_attempt_events [0..<k])) \<longleftrightarrow> i < k"
  by (auto simp: cris_attempt_events_def)

lemma cris_poll_char:
  "\<exists>k. 1 \<le> k \<and> k \<le> 5
     \<and> events (cris_poll q E) = concat (map cris_attempt_events [0..<k])
     \<and> cloudwatch_results (cris_poll q E) = cris_answer q (k - 1)
     \<and> (\<forall>i. Suc i < k \<longrightarrow> \<not> cris_complete E (cris_answer q i))
     \<and> (k < 5 \<longrightarrow> cris_complete E (cris_answer q (k - 1)))"
proof -
  let ?init = "\<lparr>cloudwatch_results = PyNone, has_regions = False, events = []\<rparr>"
  let ?leave = "\<lambda>st. cris_complete E (cloudwatch_results st)"
  from for_break_char [of "[0..<max_attempts]" "cris_attempt q" ?leave ?init]
  obtain k where k: "k \<le> 5" "1 \<le> k"
    "cris_poll q E = fold (cris_attempt q) (take k [0..<max_attempts]) ?init"
    "\<forall>j. 0 < j \<and> j < k \<longrightarrow> \<not> ?leave (fold (cris_attempt q) (take j [0..<max_attempts]) ?init)"
    "k < 5 \<longrightarrow> ?leave (fold (cris_attempt q) (take k [0..<max_attempts]) ?init)"
    unfolding cris_poll_def by (auto simp: max_attempts_def)
  have a: "\<not> cris_complete E (cris_answer q i)" if "Suc i < k" for i
  proof -
    from that k(1) have "Suc i \<le> 5" by simp
    from k(4) that have "\<not> ?leave (fold (cris_attempt q) (take (Suc i) [0..<max_attempts]) ?init)"
      by simp
    then show ?thesis
      unfolding take_attempts [OF \<open>Suc i \<le> 5\<close>] fold_cris_attempt by simp
  qed
  have b: "cris_complete E (cris_answer q (k - 1))" if "k < 5"
    using k(5) that k(2) unfolding take_attempts [OF k(1)] fold_cris_attempt by simp
  show ?thesis
    using k(1,2) a b
    by (intro exI [of _ k]) (simp add: k(3) take_attempts [OF k(1)] fold_cris_attempt)
qed

lemma cris_poll_attempts:
  fixes q E
  defines "k \<equiv> attempts_made (events (cris_poll q E))"
  shows "1 \<le> k" and "k \<le> 5"
    and "events (cris_poll q E) = concat (map cris_attempt_events [0..<k])"
    and "cloudwatch_results (cris_poll q E) = cris_answer q (k - 1)"
    and "\<And>i. Suc i < k \<Longrightarrow> \<not> cris_complete E (cris_answer q i)"
    and "k < 5 \<Longrightarrow> cris_complete E (cris_answer q (k - 1))"
proof -
  from cris_poll_char [of q E] obtain k' where k': "1 \<le> k'" "k' \<le> 5"
    "events (cris_poll q E) = concat (map cris_attempt_events [0..<k'])"
    "cloudwatch_results (cris_poll q E) = cris_answer q (k' - 1)"
    "\<forall>i. Suc i < k' \<longrightarrow> \<not> cris_complete E (cris_answer q i)"
    "k' < 5 \<longrightarrow> cris_complete E (cris_answer q (k' - 1))"
    by blast
  have "k = k'"
    unfolding k_def k'(3) by (rule attempts_made_cris)
  with k' show "1 \<le> k" "k \<le> 5"
    "events (cris_poll q E) = concat (map cris_attempt_events [0..<k])"
    "cloudwatch_results (cris_poll q E) = cris_answer q (k - 1)"
    "\<And>i. Suc i < k \<Longrightarrow> \<not> cris_complete E (cris_answer q i)"
    "k < 5 \<Longrightarrow> cris_complete E (cris_answer q (k - 1))"
    by simp_all
qed

subsection \<open>Account-sharding script\<close>

lemma fold_shard_attempt:
  "fold (shard_attempt q p s) [0..<k] \<lparr>all_cloudwatch_results = Map.empty, shard_events = []\<rparr>
     = \<lparr>all_cloudwatch_results = shard_stored q p s k,
        shard_events = concat (map (shard_attempt_events p s) [0..<k])\<rparr>"
proof (induction k)
  case 0
  show ?case by (simp add: shard_stored_def fun_eq_iff)
next
  case (Suc k)
  have "shard_attempt q p s k \<lparr>all_cloudwatch_results = shard_stored q p s k,
            shard_events = concat (map (shard_attempt_events p s) [0..<k])\<rparr>
        = \<lparr>all_cloudwatch_results = shard_stored q p s (Suc k),
           shard_events = concat (map (shard_attempt_events p s) [0..<Suc k])\<rparr>"
    by (auto simp: shard_attempt_def shard_query_def shard_attempt_events_def shard_stored_def
          Let_def fun_eq_iff)
  with Suc show ?case by simp
qed

lemma shard_after_stored:
  "all_cloudwatch_results (shard_after q p s i) = shard_stored q p s (Suc i)"
  unfolding shard_after_def shard_poll_init_def fold_shard_attempt by simp

lemma attempts_made_shard: "attempts_made (concat (map (shard_attempt_events p s) [0..<k])) = k"
  by (induction k) (simp_all add: attempts_made_def shard_attempt_events_def)

lemma account_query_in_shard_events:
  "AccountQuery i a \<in> set (concat (map (shard_attempt_events p s) [0..<k]))
     \<longleftrightarrow> i < k \<and> ((a = ''ACCOUNT1'' \<and> p > 0) \<or> (a = ''ACCOUNT2'' \<and> s > 0))"
  by (auto simp: shard_attempt_events_def)

lemma shard_poll_char:
  "\<exists>k. 1 \<le> k \<and> k \<le> 5
     \<and> shard_events (shard_poll q p s) = concat (map (shard_attempt_events p s) [0..<k])
     \<and> all_cloudwatch_results (shard_poll q p s) = shard_stored q p s k
     \<and> (\<forall>j. 0 < j \<and> j < k \<longrightarrow> \<not> shard_complete p s (shard_stored q p s j))
     \<and> (k < 5 \<longrightarrow> shard_complete p s (shard_stored q p s k))"
proof -
  let ?init = "\<lparr>all_cloudwatch_results = Map.empty, shard_events = []\<rparr>"
  let ?leave = "\<lambda>st. shard_complete p s (all_cloudwatch_results st)"
  from for_break_char [of "[0..<max_attempts]" "shard_attempt q p s" ?leave ?init]
  obtain k where k: "k \<le> 5" "1 \<le> k"
    "shard_poll q p s = fold (shard_attempt q p s) (take k [0..<max_attempts]) ?init"
    "\<forall>j. 0 < j \<and> j < k \<longrightarrow> \<not> ?leave (fold (shard_attempt q p s) (take j [0..<max_attempts]) ?init)"
    "k < 5 \<longrightarrow> ?leave (fold (shard_attempt q p s) (take k [0..<max_attempts]) ?init)"
    unfolding shard_poll_def by (auto simp: max_attempts_def)
  have a: "\<not> shard_complete p s (shard_stored q p s j)" if "0 < j" "j < k" for j
  proof -
    from that k(1) have "j \<le> 5" by simp
    from k(4) that have "\<not> ?leave (fold (shard_attempt q p s) (take j [0..<max_attempts]) ?init)"
      by simp
    then show ?thesis
      unfolding take_attempts [OF \<open>j \<le> 5\<close>] fold_shard_attempt by simp
  qed
  have b: "shard_complete p s (shard_stored q p s k)" if "k < 5"
    using k(5) that unfolding take_attempts [OF k(1)] fold_shard_attempt by simp
  show ?thesis
    using k(1,2) a b
    by (intro exI [of _ k]) (simp add: k(3) take_attempts [OF k(1)] fold_shard_attempt)
qed

lemma shard_poll_attempts:
  fixes q p s
  defines "k \<equiv> attempts_made (shard_events (shard_poll q p s))"
  shows "1 \<le> k" and "k \<le> 5"
    and "shard_events (shard_poll q p s) = concat (map (shard_attempt_events p s) [0..<k])"
    and "all_cloudwatch_results (shard_poll q p s) = shard_stored q p s k"
    and "\<And>i. Suc i < k \<Longrightarrow> \<not> shard_complete p s (all_cloudwatch_results (shard_after q p s i))"
    and "k < 5 \<Longrightarrow> shard_complete p s (all_cloudwatch_results (shard_after q p s (k - 1)))"
proof -
  from shard_poll_char [of q p s] obtain k' where k': "1 \<le> k'" "k' \<le> 5"
    "shard_events (shard_poll q p s) = concat (map (shard_attempt_events p s) [0..<k'])"
    "all_cloudwatch_results (shard_poll q p s) = shard_stored q p s k'"
    "\<forall>j. 0 < j \<and> j < k' \<longrightarrow> \<not> shard_complete p s (shard_stored q p s j)"
    "k' < 5 \<longrightarrow> shard_complete p s (shard_stored q p s k')"
    by blast
  have eq: "k = k'"
    unfolding k_def k'(3) by (rule attempts_made_shard)
  with k'(1-4) show "1 \<le> k" "k \<le> 5"
    "shard_events (shard_poll q p s) = concat (map (shard_attempt_events p s) [0..<k])"
    "all_cloudwatch_results (shard_poll q p s) = shard_stored q p s k"
    by simp_all
  show "\<not> shard_complete p s (all_cloudwatch_results (shard_after q p s i))" if "Suc i < k" for i
    using k'(5) that eq unfolding shard_after_stored by simp
  show "shard_complete p s (all_cloudwatch_results (shard_after q p s (k - 1)))" if "k < 5"
    using k'(6) k'(1) that eq unfolding shard_after_stored by simp
qed


subsection \<open>Concrete polls\<close>

lemma late_answers:
  "cris_answer late_query 0 = Snapshot [''us-east-1'' \<mapsto> 1] 1"
  "cris_answer late_query 1 = Snapshot [''us-east-1'' \<mapsto> 1] 1"
  "cris_answer late_query 2 = Snapshot [''us-east-1'' \<mapsto> 2, ''us-west-2'' \<mapsto> 1] 3"
  "cris_answer late_query 4 = Snapshot [''us-east-1'' \<mapsto> 2, ''us-west-2'' \<mapsto> 1] 3"
  by (simp_all add: cris_answer_def late_query_def query_cloudwatch_distribution_def
      get_cloudwatch_results_def)

lemma late_poll_events:
  "events (cris_poll late_query 3) = [Sleep 60, Query 0, Sleep 30, Query 1, Sleep 30, Query 2]"
  by (simp add: cris_poll_def upt_max_attempts cris_attempt_def cris_complete_def wait_time_def
      late_query_def query_cloudwatch_distribution_def get_cloudwatch_results_def)

lemma requery_first_attempt:
  "all_cloudwatch_results (shard_after requery_query 2 2 0) ''ACCOUNT1''
     = Some (Snapshot [''us-east-1'' \<mapsto> 2] 2)
   \<and> all_cloudwatch_results (shard_after requery_query 2 2 0) ''ACCOUNT2'' = None"
  by (simp add: shard_after_def shard_poll_init_def shard_attempt_def shard_query_def
      requery_query_def query_cloudwatch_distribution_def get_cloudwatch_results_def)

lemma requery_poll_events:
  "shard_events (shard_poll requery_query 2 2)
     = [Sleep 60, AccountQuery 0 ''ACCOUNT1'', AccountQuery 0 ''ACCOUNT2'',
        Sleep 30, AccountQuery 1 ''ACCOUNT1'', AccountQuery 1 ''ACCOUNT2'',
        Sleep 30, AccountQuery 2 ''ACCOUNT1'', AccountQuery 2 ''ACCOUNT2'',
        Sleep 30, AccountQuery 3 ''ACCOUNT1'', AccountQuery 3 ''ACCOUNT2'',
        Sleep 30, AccountQuery 4 ''ACCOUNT1'', AccountQuery 4 ''ACCOUNT2'']"
  by (simp add: shard_poll_def upt_max_attempts shard_attempt_def shard_query_def
      shard_complete_def got_account_def wait_time_def requery_query_def
      query_cloudwatch_distribution_def get_cloudwatch_results_def)

subsection \<open>Acceptance\<close>

text \<open>
  Claim C4 as stated fails in the account-sharding script: with two successes on each account,
  the first account is complete after the first attempt (its stored count equals the expected
  2) while the second account has no answer; the second attempt queries the first account
  again.
\<close>

theorem complete_account_queried_again:
  "got_account ''ACCOUNT1'' 2 (all_cloudwatch_results (shard_after requery_query 2 2 0))
   \<and> AccountQuery 1 ''ACCOUNT1'' \<in> set (shard_events (shard_poll requery_query 2 2))"
  by (simp add: requery_first_attempt requery_poll_events got_account_def)

text \<open>
  Claim C4, amended. In the CRIS script (one partition, expected count \<open>E\<close>): an attempt
  before the last of the budget whose summed count is below \<open>E\<close> is followed by another
  attempt; an attempt whose answer has summed count \<open>E\<close> ends the loop with that answer, and
  no later query is made. In the account-sharding script: an attempt before the last of the
  budget after which the stored answers are not complete for every account with a success is
  followed by another attempt, which queries every account with a success, complete or not;
  an attempt after which they are complete ends the loop, and no later query is made.
\<close>

theorem poll_acceptance:
  "(i < 4 \<and> Query i \<in> set (events (cris_poll q E))
      \<and> get_total_invocations (cris_answer q i) < int E
     \<longrightarrow> Query (Suc i) \<in> set (events (cris_poll q E)))
   \<and> (Query i \<in> set (events (cris_poll q E)) \<and> py_truthy (cris_answer q i)
      \<and> get_total_invocations (cris_answer q i) = int E
     \<longrightarrow> cloudwatch_results (cris_poll q E) = cris_answer q i
         \<and> (\<forall>j. i < j \<longrightarrow> Query j \<notin> set (events (cris_poll q E))))
   \<and> (i < 4 \<and> i < attempts_made (shard_events (shard_poll q' p s))
      \<and> \<not> shard_complete p s (all_cloudwatch_results (shard_after q' p s i))
     \<longrightarrow> Suc i < attempts_made (shard_events (shard_poll q' p s))
         \<and> (p > 0 \<longrightarrow> AccountQuery (Suc i) ''ACCOUNT1'' \<in> set (shard_events (shard_poll q' p s)))
         \<and> (s > 0 \<longrightarrow> AccountQuery (Suc i) ''ACCOUNT2'' \<in> set (shard_events (shard_poll q' p s))))
   \<and> (i < attempts_made (shard_events (shard_poll q' p s))
      \<and> shard_complete p s (all_cloudwatch_results (shard_after q' p s i))
     \<longrightarrow> attempts_made (shard_events (shard_poll q' p s)) = Suc i
         \<and> all_cloudwatch_results (shard_poll q' p s) = all_cloudwatch_results (shard_after q' p s i)
         \<and> (\<forall>j a. i < j \<longrightarrow> AccountQuery j a \<notin> set (shard_events (shard_poll q' p s))))"
proof -
  define k where "k = attempts_made (events (cris_poll q E))"
  note c = cris_poll_attempts [where q = q and E = E, folded k_def]
  have ev: "Query j \<in> set (events (cris_poll q E)) \<longleftrightarrow> j < k" for j
    unfolding c(3) by (rule query_in_cris_events)
  have A: "Query (Suc i) \<in> set (events (cris_poll q E))"
    if "i < 4" "Query i \<in> set (events (cris_poll q E))"
      "get_total_invocations (cris_answer q i) < int E"
  proof -
    from that(2) have "i < k" by (simp add: ev)
    have "Suc i < k"
    proof (rule ccontr)
      assume "\<not> Suc i < k"
      with \<open>i < k\<close> have "k = Suc i" by simp
      with that(1) c(6) have "cris_complete E (cris_answer q i)" by simp
      with that(3) show False by (simp add: cris_complete_def)
    qed
    then show ?thesis by (simp add: ev)
  qed
  have B: "cloudwatch_results (cris_poll q E) = cris_answer q i
         \<and> (\<forall>j. i < j \<longrightarrow> Query j \<notin> set (events (cris_poll q E)))"
    if "Query i \<in> set (events (cris_poll q E))" "py_truthy (cris_answer q i)"
      "get_total_invocations (cris_answer q i) = int E"
  proof -
    from that(1) have "i < k" by (simp add: ev)
    from that(2,3) have "cris_complete E (cris_answer q i)" by (simp add: cris_complete_def)
    with c(5) [of i] have "\<not> Suc i < k" by blast
    with \<open>i < k\<close> have "k = Suc i" by simp
    with c(4) show ?thesis by (simp add: ev)
  qed
  define m where "m = attempts_made (shard_events (shard_poll q' p s))"
  note h = shard_poll_attempts [where q = q' and p = p and s = s, folded m_def]
  have sev: "AccountQuery j a \<in> set (shard_events (shard_poll q' p s))
      \<longleftrightarrow> j < m \<and> ((a = ''ACCOUNT1'' \<and> p > 0) \<or> (a = ''ACCOUNT2'' \<and> s > 0))" for j a
    unfolding h(3) by (rule account_query_in_shard_events)
  have C: "Suc i < m
         \<and> (p > 0 \<longrightarrow> AccountQuery (Suc i) ''ACCOUNT1'' \<in> set (shard_events (shard_poll q' p s)))
         \<and> (s > 0 \<longrightarrow> AccountQuery (Suc i) ''ACCOUNT2'' \<in> set (shard_events (shard_poll q' p s)))"
    if "i < 4" "i < m" "\<not> shard_complete p s (all_cloudwatch_results (shard_after q' p s i))"
  proof -
    have "Suc i < m"
    proof (rule ccontr)
      assume "\<not> Suc i < m"
      with \<open>i < m\<close> have "m = Suc i" by simp
      with that(1) h(6) have "shard_complete p s (all_cloudwatch_results (shard_after q' p s i))"
        by simp
      with that(3) show False by simp
    qed
    then show ?thesis by (simp add: sev)
  qed
  have D: "m = Suc i
         \<and> all_cloudwatch_results (shard_poll q' p s) = all_cloudwatch_results (shard_after q' p s i)
         \<and> (\<forall>j a. i < j \<longrightarrow> AccountQuery j a \<notin> set (shard_events (shard_poll q' p s)))"
    if "i < m" "shard_complete p s (all_cloudwatch_results (shard_after q' p s i))"
  proof -
    from h(5) [of i] that(2) have "\<not> Suc i < m" by blast
    with \<open>i < m\<close> have "m = Suc i" by simp
    with h(4) show ?thesis by (simp add: sev shard_after_stored)
  qed
  from A B C D show ?thesis
    unfolding m_def by blast
qed

theorem poll_acceptance_witness:
  "Query 1 \<in> set (events (cris_poll late_query 3))
   \<and> Query 2 \<in> set (events (cris_poll late_query 3))
   \<and> Query 3 \<notin> set (events (cris_poll late_query 3))
   \<and> get_total_invocations (cloudwatch_results (cris_poll late_query 3)) = 3
   \<and> AccountQuery 1 ''ACCOUNT2'' \<in> set (shard_events (shard_poll requery_query 2 2))"
proof -
  have q0: "(0::nat) < 4" "Query 0 \<in> set (events (cris_poll late_query 3))"
    "get_total_invocations (cris_answer late_query 0) < int 3"
    by (simp_all add: late_poll_events late_answers)
  have q2: "Query 2 \<in> set (events (cris_poll late_query 3))"
    "py_truthy (cris_answer late_query 2)"
    "get_total_invocations (cris_answer late_query 2) = int 3"
    by (simp_all add: late_poll_events late_answers)
  have s0: "0 < attempts_made (shard_events (shard_poll requery_query 2 2))"
    "\<not> shard_complete 2 2 (all_cloudwatch_results (shard_after requery_query 2 2 0))"
    by (simp_all add: requery_poll_events attempts_made_def requery_first_attempt
        shard_complete_def got_account_def)
  from poll_acceptance [where i = 0 and q = late_query and E = 3 and q' = requery_query and p = 2 and s = 2] q0 s0
  have a: "Query 1 \<in> set (events (cris_poll late_query 3))"
    and d: "AccountQuery 1 ''ACCOUNT2'' \<in> set (shard_events (shard_poll requery_query 2 2))"
    by simp_all
  from poll_acceptance [where i = 2 and q = late_query and E = 3 and q' = requery_query and p = 2 and s = 2] q2
  have b: "cloudwatch_results (cris_poll late_query 3) = cris_answer late_query 2"
    and c: "Query 3 \<notin> set (events (cris_poll late_query 3))"
    by simp_all
  from a q2(1) c b d show ?thesis
    by (simp add: late_answers)
qed

subsection \<open>Attempt budget\<close>

text \<open>
  Neither loop makes more than five attempts, and the account-sharding loop ends with, for
  each account with a success, the latest storable answer among the attempts it made.
\<close>

lemma poll_attempts_bounded:
  "attempts_made (events (cris_poll q E)) \<le> max_attempts
   \<and> attempts_made (shard_events (shard_poll q' p s)) \<le> max_attempts"
  using cris_poll_attempts(2) [where q = q and E = E]
    shard_poll_attempts(2) [where q = q' and p = p and s = s]
  by (simp add: max_attempts_def)

lemma shard_poll_keeps_latest:
  "all_cloudwatch_results (shard_poll q p s)
     = shard_stored q p s (attempts_made (shard_events (shard_poll q p s)))"
  by (rule shard_poll_attempts(4))

text \<open>
  Claim C5, in the CRIS script when the log service shows one of three invocations in the
  first four attempts and the query of the fifth attempt fails: the loop makes its five
  attempts and ends, but with \<^verbatim>\<open>None\<close> (every attempt overwrites the variable, also with a
  failed query's \<^verbatim>\<open>None\<close>), not with the snapshot of the fourth attempt, the last one that was
  available; the report then says that the analysis is unavailable. The account-sharding
  loop, given the same answers for its first account, ends with that snapshot.
\<close>

theorem cris_poll_drops_last_snapshot:
  "attempts_made (events (cris_poll lastfail_query 3)) = 5
   \<and> cris_answer lastfail_query 3 = Snapshot [''us-east-1'' \<mapsto> 1] 1
   \<and> cris_answer lastfail_query 4 = PyNone
   \<and> cloudwatch_results (cris_poll lastfail_query 3) = PyNone
   \<and> attempts_made (shard_events (shard_poll lastfail_shard_query 3 0)) = 5
   \<and> all_cloudwatch_results (shard_poll lastfail_shard_query 3 0) ''ACCOUNT1''
       = Some (Snapshot [''us-east-1'' \<mapsto> 1] 1)"
proof -
  have a: "cris_answer lastfail_query 3 = Snapshot [''us-east-1'' \<mapsto> 1] 1"
    "cris_answer lastfail_query 4 = PyNone"
    by (simp_all add: cris_answer_def lastfail_query_def query_cloudwatch_distribution_def
        get_cloudwatch_results_def)
  have c: "cris_poll lastfail_query 3
      = \<lparr>cloudwatch_results = PyNone, has_regions = False,
         events = [Sleep 60, Query 0, Sleep 30, Query 1, Sleep 30, Query 2, Sleep 30, Query 3,
                   Sleep 30, Query 4]\<rparr>"
    by (simp add: cris_poll_def upt_max_attempts cris_attempt_def cris_complete_def wait_time_def
        lastfail_query_def query_cloudwatch_distribution_def get_cloudwatch_results_def)
  have s: "shard_events (shard_poll lastfail_shard_query 3 0)
      = [Sleep 60, AccountQuery 0 ''ACCOUNT1'', Sleep 30, AccountQuery 1 ''ACCOUNT1'',
         Sleep 30, AccountQuery 2 ''ACCOUNT1'', Sleep 30, AccountQuery 3 ''ACCOUNT1'',
         Sleep 30, AccountQuery 4 ''ACCOUNT1'']"
    "all_cloudwatch_results (shard_poll lastfail_shard_query 3 0) ''ACCOUNT1''
      = Some (Snapshot [''us-east-1'' \<mapsto> 1] 1)"
    by (simp_all add: shard_poll_def upt_max_attempts shard_attempt_def shard_query_def
        shard_complete_def got_account_def wait_time_def lastfail_shard_query_def
        lastfail_query_def query_cloudwatch_distribution_def get_cloudwatch_results_def)
  from a c s show ?thesis
    by (simp add: attempts_made_def)
qed


end
